theory Spec2Isabelle
  imports Complex_Main "HOL-Library.AList" "HOL-Library.Char_ord" "HOL-Library.List_Lexorder"
    "HOL-Library.Word"
begin

section \<open>Python values, exceptions and the outcome of a coroutine\<close>

text \<open>
  The cache stores arbitrary Python objects. The model keeps the shapes the code can tell
  apart: \<open>None\<close> (tested with \<open>is not None\<close>), numbers, strings, byte strings, nested lists
  and dictionaries, and the objects \<open>pickle\<close> refuses to serialise, which are values like
  any other for the memory store: a lambda of a module (\<open>PLambda\<close>), a function or lambda
  defined inside a function (\<open>PLocal\<close>), and an object such as a lock or a generator, given
  by the name of its type (\<open>PObject\<close>).
\<close>

datatype pyval =
    PNone
  | PBool bool
  | PInt int
  | PFloat real
  | PStr string
  | PBytes "8 word list"
  | PList "pyval list"
  | PDict "(string \<times> pyval) list"
  | PLambda string
  | PLocal string
  | PObject string

text \<open>\<open>type(v).__name__\<close>.\<close>

fun type_name :: "pyval \<Rightarrow> string" where
  "type_name PNone = ''NoneType''"
| "type_name (PBool _) = ''bool''"
| "type_name (PInt _) = ''int''"
| "type_name (PFloat _) = ''float''"
| "type_name (PStr _) = ''str''"
| "type_name (PBytes _) = ''bytes''"
| "type_name (PList _) = ''list''"
| "type_name (PDict _) = ''dict''"
| "type_name (PLambda _) = ''function''"
| "type_name (PLocal _) = ''function''"
| "type_name (PObject t) = t"

text \<open>
  Exceptions are the subclasses of \<open>Exception\<close> that occur in the code, with their message
  (\<open>str(e)\<close>); \<open>UserError n\<close> is any other subclass of \<open>Exception\<close>, named \<open>n\<close>.
\<close>

datatype exn_class =
    OSError
  | FileNotFoundError
  | PicklingError
  | UnpicklingError
  | EOFError
  | ZlibError
  | TypeError
  | AttributeError
  | UnboundLocalError
  | UserError string

datatype exn = Exn (exn_class: exn_class) (exn_msg: string)

text \<open>\<open>type(e).__name__\<close>.\<close>

fun class_name :: "exn_class \<Rightarrow> string" where
  "class_name OSError = ''OSError''"
| "class_name FileNotFoundError = ''FileNotFoundError''"
| "class_name PicklingError = ''PicklingError''"
| "class_name UnpicklingError = ''UnpicklingError''"
| "class_name EOFError = ''EOFError''"
| "class_name ZlibError = ''error''"
| "class_name TypeError = ''TypeError''"
| "class_name AttributeError = ''AttributeError''"
| "class_name UnboundLocalError = ''UnboundLocalError''"
| "class_name (UserError n) = n"

text \<open>The \<open>except\<close> clauses of the code: \<open>FileNotFoundError\<close> is a subclass of \<open>OSError\<close>,
  \<open>PicklingError\<close> and \<open>UnpicklingError\<close> are the subclasses of \<open>pickle.PickleError\<close>.\<close>

fun is_OSError :: "exn \<Rightarrow> bool" where
  "is_OSError (Exn c _) = (c = OSError \<or> c = FileNotFoundError)"

fun is_PickleError :: "exn \<Rightarrow> bool" where
  "is_PickleError (Exn c _) = (c = PicklingError \<or> c = UnpicklingError)"

text \<open>
  What awaiting a coroutine gives: a value, an exception, or nothing at all. \<open>Hang\<close> is a
  coroutine that waits on an \<open>asyncio.Lock\<close> which is held: the lock is not reentrant and
  only its holder releases it, so in a run of one task the wait never ends.
\<close>

datatype 'a outcome = Return 'a | Raise exn | Hang

section \<open>The world: clock, notifications, backend, user state\<close>

datatype event_type =
    CACHE_HIT
  | CACHE_MISS
  | CACHE_SET
  | CACHE_DELETE
  | CACHE_CLEAR
  | CACHE_ERROR
  | FUNCTION_CALL_START
  | FUNCTION_CALL_END
  | FUNCTION_ERROR

type_synonym event = "event_type \<times> (string \<times> pyval) list"

text \<open>
  \<open>clock\<close> and \<open>ticks\<close> are the readings of \<open>time.time()\<close>: the \<open>n\<close>-th call returns
  \<open>clock n\<close>. \<open>emitted\<close> is the sequence of calls \<open>events.emit(type, data)\<close>, each with the
  dictionary it was given, in the order of its keys. \<open>backend\<close> is the state of the backend
  instance the cache manager owns, together with the storage only it touches. \<open>user\<close> is the
  state the wrapped functions act on (a call counter, for example).
\<close>

record ('b, 'u) world =
  clock :: "nat \<Rightarrow> real"
  ticks :: nat
  emitted :: "event list"
  backend :: 'b
  user :: 'u

definition time_time :: "('b, 'u) world \<Rightarrow> real \<times> ('b, 'u) world" where
  "time_time w = (clock w (ticks w), w\<lparr>ticks := Suc (ticks w)\<rparr>)"

text \<open>\<open>events.emit\<close> catches what its handlers raise, so a call always returns.\<close>

definition emit :: "event_type \<Rightarrow> (string \<times> pyval) list \<Rightarrow> ('b, 'u) world \<Rightarrow> ('b, 'u) world" where
  "emit t d w = w\<lparr>emitted := emitted w @ [(t, d)]\<rparr>"

section \<open>Dictionaries and truth values\<close>

text \<open>
  A Python dictionary keeps its keys in insertion order, and \<open>min\<close> over its items returns
  the first minimal one, so the cache is an association list: \<open>AList.update\<close> replaces the
  value of a present key in place and appends an absent key at the end, \<open>AList.delete\<close>
  removes a key.
\<close>

definition dict_contains :: "'k \<Rightarrow> ('k \<times> 'v) list \<Rightarrow> bool" where
  "dict_contains k d = (k \<in> set (map fst d))"

text \<open>The truth value of an \<open>Optional[int]\<close> and of an \<open>Optional[float]\<close>: \<open>None\<close> and zero are
  false.\<close>

fun truthy_int :: "int option \<Rightarrow> bool" where
  "truthy_int None = False"
| "truthy_int (Some n) = (n \<noteq> 0)"

fun truthy_float :: "real option \<Rightarrow> bool" where
  "truthy_float None = False"
| "truthy_float (Some x) = (x \<noteq> 0)"

text \<open>\<open>min(items, key=f)\<close>: the running best is replaced only by a strictly smaller item.
  On an empty sequence Python raises \<open>ValueError\<close>, here \<open>None\<close>.\<close>

fun py_min_from :: "('a \<Rightarrow> real) \<Rightarrow> 'a \<Rightarrow> 'a list \<Rightarrow> 'a" where
  "py_min_from f best [] = best"
| "py_min_from f best (x # xs) = py_min_from f (if f x < f best then x else best) xs"

definition py_min :: "('a \<Rightarrow> real) \<Rightarrow> 'a list \<Rightarrow> 'a option" where
  "py_min f xs = (case xs of [] \<Rightarrow> None | x # rest \<Rightarrow> Some (py_min_from f x rest))"

section \<open>MemoryCache\<close>

text \<open>\<open>cache\<close> maps a key to the tuple \<open>(value, expiry, last_access)\<close>; \<open>lock\<close> is whether
  the \<open>asyncio.Lock\<close> of the instance is held.\<close>

type_synonym mem_entry = "pyval \<times> real option \<times> real"

record memory_cache =
  max_size :: "int option"
  cache :: "(string \<times> mem_entry) list"
  lock :: bool

definition mem_lock :: "bool \<Rightarrow> (memory_cache, 'u) world \<Rightarrow> (memory_cache, 'u) world" where
  "mem_lock b w = w\<lparr>backend := (backend w)\<lparr>lock := b\<rparr>\<rparr>"

definition mem_store :: "(string \<times> mem_entry) list \<Rightarrow> (memory_cache, 'u) world \<Rightarrow> (memory_cache, 'u) world" where
  "mem_store c w = w\<lparr>backend := (backend w)\<lparr>cache := c\<rparr>\<rparr>"

text \<open>The key function of the eviction scan, \<open>lambda x: x[1][2]\<close> on an item
  \<open>(key, (value, expiry, last_access))\<close>.\<close>

definition last_access :: "string \<times> mem_entry \<Rightarrow> real" where
  "last_access x = snd (snd (snd x))"

text \<open>\<open>_evict_lru\<close>: a plain method, called with the lock held.\<close>

definition evict_lru :: "memory_cache \<Rightarrow> memory_cache" where
  "evict_lru m =
     (if cache m = [] then m
      else case py_min last_access (cache m) of
             None \<Rightarrow> m
           | Some oldest \<Rightarrow>
               (if dict_contains (fst oldest) (cache m)
                then m\<lparr>cache := AList.delete (fst oldest) (cache m)\<rparr>
                else m))"

text \<open>\<open>delete\<close>: \<open>async with self.lock\<close> waits while the lock is held.\<close>

definition mem_delete :: "string \<Rightarrow> (memory_cache, 'u) world \<Rightarrow> unit outcome \<times> (memory_cache, 'u) world" where
  "mem_delete key w =
     (if lock (backend w) then (Hang, w)
      else
        let w1 = mem_lock True w;
            w2 = (if dict_contains key (cache (backend w1))
                  then mem_store (AList.delete key (cache (backend w1))) w1
                  else w1)
        in (Return (), mem_lock False w2))"

text \<open>\<open>get\<close>. The expired branch awaits \<open>self.delete(key)\<close> inside \<open>async with self.lock\<close>;
  \<open>return None\<close> follows once that call returns.\<close>

definition mem_touch :: "string \<Rightarrow> pyval \<Rightarrow> real option \<Rightarrow> (memory_cache, 'u) world \<Rightarrow> pyval outcome \<times> (memory_cache, 'u) world" where
  "mem_touch key v expiry w =
     (let (t, w1) = time_time w;
          w2 = mem_store (AList.update key (v, expiry, t) (cache (backend w1))) w1
      in (Return v, mem_lock False w2))"

definition mem_get :: "string \<Rightarrow> (memory_cache, 'u) world \<Rightarrow> pyval outcome \<times> (memory_cache, 'u) world" where
  "mem_get key w =
     (if lock (backend w) then (Hang, w)
      else
        let w1 = mem_lock True w in
        case map_of (cache (backend w1)) key of
          None \<Rightarrow> (Return PNone, mem_lock False w1)
        | Some (v, expiry, _) \<Rightarrow>
            (if truthy_float expiry
             then
               let (t, w2) = time_time w1 in
               if t > the expiry
               then (case mem_delete key w2 of
                       (Return _, w3) \<Rightarrow> (Return PNone, mem_lock False w3)
                     | (Raise e, w3) \<Rightarrow> (Raise e, mem_lock False w3)
                     | (Hang, w3) \<Rightarrow> (Hang, w3))
               else mem_touch key v expiry w2
             else mem_touch key v expiry w1))"

text \<open>\<open>set\<close>: \<open>expiry = time.time() + ttl if ttl else None\<close>, then the entry is written with
  a second reading of the clock.\<close>

definition mem_set :: "string \<Rightarrow> pyval \<Rightarrow> int option \<Rightarrow> (memory_cache, 'u) world \<Rightarrow> unit outcome \<times> (memory_cache, 'u) world" where
  "mem_set key v ttl w =
     (if lock (backend w) then (Hang, w)
      else
        let w1 = mem_lock True w;
            m = backend w1;
            w2 = (if truthy_int (max_size m) \<and> int (length (cache m)) \<ge> the (max_size m)
                     \<and> \<not> dict_contains key (cache m)
                  then w1\<lparr>backend := evict_lru m\<rparr>
                  else w1);
            (expiry, w3) = (if truthy_int ttl
                            then let (t, w') = time_time w2 in (Some (t + real_of_int (the ttl)), w')
                            else (None, w2));
            (t2, w4) = time_time w3;
            w5 = mem_store (AList.update key (v, expiry, t2) (cache (backend w4))) w4
        in (Return (), mem_lock False w5))"

definition mem_clear :: "(memory_cache, 'u) world \<Rightarrow> unit outcome \<times> (memory_cache, 'u) world" where
  "mem_clear w =
     (if lock (backend w) then (Hang, w)
      else
        let w1 = mem_lock True w;
            w2 = mem_store [] w1
        in (Return (), mem_lock False w2))"

section \<open>Library functions\<close>

text \<open>
  \<open>hashlib.md5(s.encode()).hexdigest()\<close>, the builtin \<open>hash\<close> (\<open>None\<close> where it raises
  \<open>TypeError\<close> on an unhashable value) and the builtin \<open>str\<close> belong to Python, not to this
  repository: the functions that call them take them as a parameter.
\<close>

record pylib =
  md5_hexdigest :: "string \<Rightarrow> string"
  py_hash :: "pyval \<Rightarrow> int option"
  py_str :: "pyval \<Rightarrow> string"

text \<open>\<open>str\<close> of an integer, in decimal.\<close>

fun str_nat :: "nat \<Rightarrow> string" where
  "str_nat n = (if n < 10 then [''0123456789'' ! n] else str_nat (n div 10) @ [''0123456789'' ! (n mod 10)])"

declare str_nat.simps [simp del]

definition str_int :: "int \<Rightarrow> string" where
  "str_int i = (if i < 0 then ''-'' @ str_nat (nat (- i)) else str_nat (nat i))"

text \<open>
  \<open>pickle\<close> and \<open>zlib\<close>. The dictionary \<open>{"value", "expiry", "created"}\<close> that \<open>DiskCache.set\<close>
  serialises is an \<open>envelope\<close>; a file holds a pickled envelope, a compressed blob, or bytes
  that are neither. \<open>pickle.loads\<close> inverts \<open>pickle.dumps\<close>. \<open>pickle.dumps\<close> raises on
  the first object it refuses: \<open>PicklingError\<close> for a lambda of a module, \<open>AttributeError\<close>
  for a function defined inside a function, \<open>TypeError\<close> for a lock or a generator; of these
  only \<open>PicklingError\<close> is a \<open>pickle.PickleError\<close>. An empty file makes \<open>pickle.load\<close> raise
  \<open>EOFError\<close>.
\<close>

record envelope =
  env_value :: pyval
  env_expiry :: "real option"
  env_created :: real

datatype blob = Pickled envelope | Compressed blob | Garbage "8 word list"

fun first_some :: "'a option list \<Rightarrow> 'a option" where
  "first_some [] = None"
| "first_some (None # rs) = first_some rs"
| "first_some (Some r # rs) = Some r"

text \<open>The exception \<open>pickle.dumps\<close> raises on a value, \<open>None\<close> when it serialises it.\<close>

fun refusal :: "pyval \<Rightarrow> exn option" where
  "refusal (PLambda n) = Some (Exn PicklingError ''Can't pickle function: attribute lookup failed'')"
| "refusal (PLocal n) = Some (Exn AttributeError ''Can't pickle local object'')"
| "refusal (PObject t) = Some (Exn TypeError ''cannot pickle object'')"
| "refusal (PList xs) = first_some (map refusal xs)"
| "refusal (PDict kvs) = first_some (map (\<lambda>(k, v). refusal v) kvs)"
| "refusal _ = None"

definition picklable :: "pyval \<Rightarrow> bool" where
  "picklable v = (refusal v = None)"

definition pickle_dumps :: "envelope \<Rightarrow> exn + blob" where
  "pickle_dumps data =
     (case refusal (env_value data) of
        None \<Rightarrow> Inr (Pickled data)
      | Some e \<Rightarrow> Inl e)"

fun pickle_loads :: "blob \<Rightarrow> exn + envelope" where
  "pickle_loads (Pickled data) = Inr data"
| "pickle_loads (Garbage []) = Inl (Exn EOFError ''Ran out of input'')"
| "pickle_loads _ = Inl (Exn UnpicklingError ''invalid load key'')"

definition zlib_compress :: "blob \<Rightarrow> blob" where
  "zlib_compress b = Compressed b"

fun zlib_decompress :: "blob \<Rightarrow> exn + blob" where
  "zlib_decompress (Compressed b) = Inr b"
| "zlib_decompress _ = Inl (Exn ZlibError ''Error -3 while decompressing data'')"

section \<open>DiskCache\<close>

text \<open>
  The calls into the file system. Each can raise \<open>OSError\<close>; whether the call \<open>op\<close> on
  \<open>path\<close> does is given by \<open>faults op path\<close>. \<open>Mkdir\<close> is \<open>subdir.mkdir(exist_ok=True)\<close>,
  \<open>Makedirs\<close> is \<open>mkdir(parents=True, exist_ok=True)\<close>. Directories themselves are not
  tracked: a \<open>mkdir\<close> that does not raise has made its directory.
\<close>

datatype io_op = Mkdir | Makedirs | OpenRead | ReadFile | OpenWrite | WriteFile | Replace | Unlink | Rmtree

text \<open>
  \<open>file_locks\<close> is the dictionary of per-file locks (path to whether the lock is held),
  \<open>global_lock\<close> whether the lock of the dictionary is held, \<open>files\<close> the regular files of
  the file system by path.
\<close>

record disk_cache =
  base_directory :: string
  compression :: bool
  file_locks :: "(string \<times> bool) list"
  global_lock :: bool
  files :: "string \<Rightarrow> blob option"
  faults :: "io_op \<Rightarrow> string \<Rightarrow> bool"

definition disk_files :: "(string \<Rightarrow> blob option) \<Rightarrow> (disk_cache, 'u) world \<Rightarrow> (disk_cache, 'u) world" where
  "disk_files fs w = w\<lparr>backend := (backend w)\<lparr>files := fs\<rparr>\<rparr>"

definition disk_lock :: "string \<Rightarrow> bool \<Rightarrow> (disk_cache, 'u) world \<Rightarrow> (disk_cache, 'u) world" where
  "disk_lock path b w = w\<lparr>backend := (backend w)\<lparr>file_locks := AList.update path b (file_locks (backend w))\<rparr>\<rparr>"

definition lock_held :: "string \<Rightarrow> disk_cache \<Rightarrow> bool" where
  "lock_held path dc = (map_of (file_locks dc) path = Some True)"

text \<open>\<open>_key_to_path\<close>: \<open>base/<first two characters of the digest>/<digest>.cache\<close>. The
  \<open>mkdir\<close> of the subdirectory is outside every \<open>try\<close>.\<close>

definition subdir_of :: "pylib \<Rightarrow> disk_cache \<Rightarrow> string \<Rightarrow> string" where
  "subdir_of L dc key = base_directory dc @ ''/'' @ take 2 (md5_hexdigest L key)"

definition path_of :: "pylib \<Rightarrow> disk_cache \<Rightarrow> string \<Rightarrow> string" where
  "path_of L dc key = subdir_of L dc key @ ''/'' @ md5_hexdigest L key @ ''.cache''"

definition key_to_path :: "pylib \<Rightarrow> disk_cache \<Rightarrow> string \<Rightarrow> exn + string" where
  "key_to_path L dc key =
     (if faults dc Mkdir (subdir_of L dc key) then Inl (Exn OSError ''mkdir'')
      else Inr (path_of L dc key))"

text \<open>\<open>path.with_suffix('.tmp')\<close>, for a path made by \<open>_key_to_path\<close> (a hexadecimal
  digest has no dot).\<close>

definition temp_path_of :: "pylib \<Rightarrow> disk_cache \<Rightarrow> string \<Rightarrow> string" where
  "temp_path_of L dc key = subdir_of L dc key @ ''/'' @ md5_hexdigest L key @ ''.tmp''"

text \<open>\<open>_get_file_lock\<close>: under the global lock, make the lock of the path if there is none.
  The lock it returns is the entry of the path.\<close>

definition get_file_lock :: "string \<Rightarrow> (disk_cache, 'u) world \<Rightarrow> unit outcome \<times> (disk_cache, 'u) world" where
  "get_file_lock str_path w =
     (if global_lock (backend w) then (Hang, w)
      else if \<not> dict_contains str_path (file_locks (backend w))
           then (Return (), disk_lock str_path False w)
           else (Return (), w))"

text \<open>\<open>delete\<close>: an \<open>OSError\<close> of \<open>unlink\<close> is caught and logged.\<close>

definition disk_delete :: "pylib \<Rightarrow> string \<Rightarrow> (disk_cache, 'u) world \<Rightarrow> unit outcome \<times> (disk_cache, 'u) world" where
  "disk_delete L key w =
     (case key_to_path L (backend w) key of
        Inl e \<Rightarrow> (Raise e, w)
      | Inr path \<Rightarrow>
         (case get_file_lock path w of
            (Hang, w1) \<Rightarrow> (Hang, w1)
          | (Raise e, w1) \<Rightarrow> (Raise e, w1)
          | (Return _, w1) \<Rightarrow>
             (if lock_held path (backend w1) then (Hang, w1)
              else
                let w2 = disk_lock path True w1 in
                if files (backend w2) path \<noteq> None
                then (if faults (backend w2) Unlink path
                      then (Return (), disk_lock path False w2)
                      else (Return (), disk_lock path False (disk_files ((files (backend w2))(path := None)) w2)))
                else (Return (), disk_lock path False w2))))"

text \<open>Reading the envelope of a file in \<open>get\<close>: \<open>pickle.loads(zlib.decompress(f.read()))\<close>
  with compression, \<open>pickle.load(f)\<close> without.\<close>

definition load_blob :: "bool \<Rightarrow> blob \<Rightarrow> exn + envelope" where
  "load_blob compress b =
     (if compress
      then (case zlib_decompress b of Inl e \<Rightarrow> Inl e | Inr b' \<Rightarrow> pickle_loads b')
      else pickle_loads b)"

text \<open>The inner handler of \<open>get\<close>: \<open>except (zlib.error, pickle.PickleError, EOFError)\<close>
  with compression, \<open>except (pickle.PickleError, EOFError)\<close> without.\<close>

definition load_caught :: "bool \<Rightarrow> exn \<Rightarrow> bool" where
  "load_caught compress e =
     (is_PickleError e \<or> exn_class e = EOFError \<or> (compress \<and> exn_class e = ZlibError))"

text \<open>
  \<open>get\<close>. The whole body is inside \<open>try ... except (FileNotFoundError, OSError)\<close>, which
  returns \<open>None\<close>; leaving \<open>async with file_lock\<close> releases the lock. The expired branch
  awaits \<open>self.delete(key)\<close> inside \<open>async with file_lock\<close>.
\<close>

definition disk_get :: "pylib \<Rightarrow> string \<Rightarrow> (disk_cache, 'u) world \<Rightarrow> pyval outcome \<times> (disk_cache, 'u) world" where
  "disk_get L key w =
     (case key_to_path L (backend w) key of
        Inl e \<Rightarrow> (Raise e, w)
      | Inr path \<Rightarrow>
         (case get_file_lock path w of
            (Hang, w1) \<Rightarrow> (Hang, w1)
          | (Raise e, w1) \<Rightarrow> (Raise e, w1)
          | (Return _, w1) \<Rightarrow>
             (if lock_held path (backend w1) then (Hang, w1)
              else
                let w2 = disk_lock path True w1 in
                case files (backend w2) path of
                  None \<Rightarrow> (Return PNone, disk_lock path False w2)
                | Some b \<Rightarrow>
                   (if faults (backend w2) OpenRead path \<or> faults (backend w2) ReadFile path
                    then (Return PNone, disk_lock path False w2)
                    else
                      case load_blob (compression (backend w2)) b of
                        Inl e \<Rightarrow>
                          (if load_caught (compression (backend w2)) e \<or> is_OSError e
                           then (Return PNone, disk_lock path False w2)
                           else (Raise e, disk_lock path False w2))
                      | Inr data \<Rightarrow>
                          (if truthy_float (env_expiry data)
                           then
                             let (t, w3) = time_time w2 in
                             if t > the (env_expiry data)
                             then (case disk_delete L key w3 of
                                     (Return _, w4) \<Rightarrow> (Return PNone, disk_lock path False w4)
                                   | (Raise e, w4) \<Rightarrow>
                                       (if is_OSError e then (Return PNone, disk_lock path False w4)
                                        else (Raise e, disk_lock path False w4))
                                   | (Hang, w4) \<Rightarrow> (Hang, w4))
                             else (Return (env_value data), disk_lock path False w3)
                           else (Return (env_value data), disk_lock path False w2))))))"

text \<open>
  The handler of \<open>set\<close>, \<open>except (OSError, pickle.PickleError)\<close>: it logs, then unlinks the
  temporary file if it exists, passing over an \<open>OSError\<close> of the \<open>unlink\<close>. It names
  \<open>temp_path\<close>, which is assigned inside the \<open>try\<close> after \<open>path.parent.mkdir\<close>: when that
  \<open>mkdir\<close> raised, \<open>assigned\<close> is false and the handler raises \<open>UnboundLocalError\<close>.
\<close>

definition set_handler :: "bool \<Rightarrow> string \<Rightarrow> (disk_cache, 'u) world \<Rightarrow> unit outcome \<times> (disk_cache, 'u) world" where
  "set_handler assigned temp_path w =
     (if \<not> assigned
      then (Raise (Exn UnboundLocalError ''local variable 'temp_path' referenced before assignment''), w)
      else if files (backend w) temp_path \<noteq> None
           then (if faults (backend w) Unlink temp_path
                 then (Return (), w)
                 else (Return (), disk_files ((files (backend w))(temp_path := None)) w))
           else (Return (), w))"

text \<open>The serialised bytes of \<open>set\<close>: \<open>zlib.compress(pickle.dumps(data))\<close> with compression,
  \<open>pickle.dump(data, f)\<close> without.\<close>

definition dump_blob :: "bool \<Rightarrow> envelope \<Rightarrow> exn + blob" where
  "dump_blob compress data =
     (case pickle_dumps data of
        Inl e \<Rightarrow> Inl e
      | Inr b \<Rightarrow> Inr (if compress then zlib_compress b else b))"

text \<open>
  The body of \<open>async with file_lock\<close> in \<open>set\<close>, entered with the lock taken, and the
  handler after it. \<open>open(temp_path, "wb")\<close> creates the file empty; the bytes are
  written; then \<open>os.replace\<close> moves it over the target. An exception inside
  \<open>async with file_lock\<close> releases the lock before the handler runs; the handler catches
  \<open>OSError\<close> and \<open>pickle.PickleError\<close> only.
\<close>

definition write_entry :: "pylib \<Rightarrow> string \<Rightarrow> string \<Rightarrow> string \<Rightarrow> envelope \<Rightarrow> (disk_cache, 'u) world \<Rightarrow> unit outcome \<times> (disk_cache, 'u) world" where
  "write_entry L key path temp_path data w4 =
     (if faults (backend w4) Makedirs (subdir_of L (backend w4) key)
      then set_handler False temp_path (disk_lock path False w4)
      else if faults (backend w4) OpenWrite temp_path
      then set_handler True temp_path (disk_lock path False w4)
      else
        let w5 = disk_files ((files (backend w4))(temp_path \<mapsto> Garbage [])) w4 in
        case dump_blob (compression (backend w5)) data of
          Inl e \<Rightarrow>
            (if is_OSError e \<or> is_PickleError e
             then set_handler True temp_path (disk_lock path False w5)
             else (Raise e, disk_lock path False w5))
        | Inr b \<Rightarrow>
            (if faults (backend w5) WriteFile temp_path
             then set_handler True temp_path (disk_lock path False w5)
             else
               let w6 = disk_files ((files (backend w5))(temp_path \<mapsto> b)) w5 in
               if faults (backend w6) Replace temp_path
               then set_handler True temp_path (disk_lock path False w6)
               else
                 let w7 = disk_files ((files (backend w6))(path \<mapsto> b, temp_path := None)) w6
                 in (Return (), disk_lock path False w7)))"

text \<open>
  \<open>set\<close>: the path and its lock, then the dictionary \<open>data\<close> with
  \<open>"expiry": time.time() + ttl if ttl else None\<close> and \<open>"created": time.time()\<close>, then the
  \<open>try\<close> that takes the lock and writes.
\<close>

definition disk_set :: "pylib \<Rightarrow> string \<Rightarrow> pyval \<Rightarrow> int option \<Rightarrow> (disk_cache, 'u) world \<Rightarrow> unit outcome \<times> (disk_cache, 'u) world" where
  "disk_set L key v ttl w =
     (case key_to_path L (backend w) key of
        Inl e \<Rightarrow> (Raise e, w)
      | Inr path \<Rightarrow>
         (case get_file_lock path w of
            (Hang, w1) \<Rightarrow> (Hang, w1)
          | (Raise e, w1) \<Rightarrow> (Raise e, w1)
          | (Return _, w1) \<Rightarrow>
             (let (expiry, w2) = (if truthy_int ttl
                                  then let (t, w') = time_time w1 in (Some (t + real_of_int (the ttl)), w')
                                  else (None, w1));
                  (created, w3) = time_time w2;
                  data = \<lparr>env_value = v, env_expiry = expiry, env_created = created\<rparr>;
                  temp_path = temp_path_of L (backend w3) key
              in
                if lock_held path (backend w3) then (Hang, w3)
                else write_entry L key path temp_path data (disk_lock path True w3))))"

text \<open>The loop \<open>for lock in all_locks: await lock.acquire()\<close> of \<open>clear\<close>: the locks
  are taken in the order of the dictionary; the flag is false when the loop met a lock
  that is held, where it waits with the earlier ones taken.\<close>

fun acquire_all :: "(string \<times> bool) list \<Rightarrow> bool \<times> (string \<times> bool) list" where
  "acquire_all [] = (True, [])"
| "acquire_all ((p, held) # rest) =
     (if held then (False, (p, held) # rest)
      else let (ok, rest') = acquire_all rest in (ok, (p, True) # rest'))"

text \<open>
  \<open>clear\<close>: under the global lock, acquire every lock of the dictionary, remove the tree of
  the base directory and make the directory again; the \<open>finally\<close> releases the locks and
  empties the dictionary; \<open>OSError\<close> is caught and logged.
\<close>

definition under_base :: "string \<Rightarrow> string \<Rightarrow> bool" where
  "under_base base path = (take (Suc (length base)) path = base @ ''/'')"

definition disk_clear :: "(disk_cache, 'u) world \<Rightarrow> unit outcome \<times> (disk_cache, 'u) world" where
  "disk_clear w =
     (let dc = backend w in
      if global_lock dc then (Hang, w)
      else
        let (ok, locks) = acquire_all (file_locks dc) in
        if \<not> ok
        then (Hang, w\<lparr>backend := dc\<lparr>global_lock := True, file_locks := locks\<rparr>\<rparr>)
        else if faults dc Rmtree (base_directory dc)
             then (Return (), w\<lparr>backend := dc\<lparr>file_locks := []\<rparr>\<rparr>)
             else (Return (), w\<lparr>backend := dc\<lparr>file_locks := [],
                     files := (\<lambda>p. if under_base (base_directory dc) p then None else files dc p)\<rparr>\<rparr>))"

section \<open>The backend interface and the cache manager\<close>

text \<open>\<open>CacheBackend\<close>: the four abstract coroutines every backend implements. The cache
  manager calls its backend through them.\<close>

record ('b, 'u) cache_backend =
  b_get :: "string \<Rightarrow> ('b, 'u) world \<Rightarrow> pyval outcome \<times> ('b, 'u) world"
  b_set :: "string \<Rightarrow> pyval \<Rightarrow> int option \<Rightarrow> ('b, 'u) world \<Rightarrow> unit outcome \<times> ('b, 'u) world"
  b_delete :: "string \<Rightarrow> ('b, 'u) world \<Rightarrow> unit outcome \<times> ('b, 'u) world"
  b_clear :: "('b, 'u) world \<Rightarrow> unit outcome \<times> ('b, 'u) world"

definition MemoryCache :: "(memory_cache, 'u) cache_backend" where
  "MemoryCache = \<lparr>b_get = mem_get, b_set = mem_set, b_delete = mem_delete, b_clear = mem_clear\<rparr>"

definition DiskCache :: "pylib \<Rightarrow> (disk_cache, 'u) cache_backend" where
  "DiskCache L = \<lparr>b_get = disk_get L, b_set = disk_set L, b_delete = disk_delete L, b_clear = disk_clear\<rparr>"

text \<open>The fields of \<open>settings\<close> the core reads: \<open>settings.backend.value\<close>, \<open>settings.ttl\<close>
  and \<open>settings.key_prefix\<close>.\<close>

record settings =
  s_backend :: string
  s_ttl :: "int option"
  s_key_prefix :: string

text \<open>\<open>ttl or settings.ttl\<close>.\<close>

definition ttl_or :: "int option \<Rightarrow> int option \<Rightarrow> int option" where
  "ttl_or ttl dflt = (if truthy_int ttl then ttl else dflt)"

fun int_val :: "int option \<Rightarrow> pyval" where
  "int_val None = PNone"
| "int_val (Some n) = PInt n"

text \<open>
  \<open>CacheManager\<close>, once \<open>_ensure_initialized\<close> has made its backend \<open>B\<close>. Each method runs
  the backend call and the notification of its success inside \<open>try\<close>, and notifies the error
  in \<open>except Exception\<close>.
\<close>

definition manager_get :: "('b, 'u) cache_backend \<Rightarrow> settings \<Rightarrow> string \<Rightarrow> string \<Rightarrow> ('b, 'u) world \<Rightarrow> pyval outcome \<times> ('b, 'u) world" where
  "manager_get B st key function_name w =
     (case b_get B key w of
        (Return v, w1) \<Rightarrow>
          (if v \<noteq> PNone
           then (Return v, emit CACHE_HIT
                   [(''key'', PStr key), (''function'', PStr function_name),
                    (''backend'', PStr (s_backend st))] w1)
           else (Return v, emit CACHE_MISS
                   [(''key'', PStr key), (''function'', PStr function_name),
                    (''backend'', PStr (s_backend st))] w1))
      | (Raise e, w1) \<Rightarrow>
          (Return PNone, emit CACHE_ERROR
             [(''key'', PStr key), (''function'', PStr function_name),
              (''backend'', PStr (s_backend st)), (''error'', PStr (exn_msg e)),
              (''error_type'', PStr (class_name (exn_class e)))] w1)
      | (Hang, w1) \<Rightarrow> (Hang, w1))"

definition manager_set :: "('b, 'u) cache_backend \<Rightarrow> settings \<Rightarrow> string \<Rightarrow> pyval \<Rightarrow> string \<Rightarrow> int option \<Rightarrow> ('b, 'u) world \<Rightarrow> unit outcome \<times> ('b, 'u) world" where
  "manager_set B st key v function_name ttl w =
     (case b_set B key v (ttl_or ttl (s_ttl st)) w of
        (Return _, w1) \<Rightarrow>
          (Return (), emit CACHE_SET
             [(''key'', PStr key), (''function'', PStr function_name),
              (''backend'', PStr (s_backend st)), (''ttl'', int_val (ttl_or ttl (s_ttl st)))] w1)
      | (Raise e, w1) \<Rightarrow>
          (Return (), emit CACHE_ERROR
             [(''key'', PStr key), (''function'', PStr function_name),
              (''backend'', PStr (s_backend st)), (''error'', PStr (exn_msg e)),
              (''error_type'', PStr (class_name (exn_class e))),
              (''operation'', PStr ''set'')] w1)
      | (Hang, w1) \<Rightarrow> (Hang, w1))"

definition manager_delete :: "('b, 'u) cache_backend \<Rightarrow> settings \<Rightarrow> string \<Rightarrow> ('b, 'u) world \<Rightarrow> unit outcome \<times> ('b, 'u) world" where
  "manager_delete B st key w =
     (case b_delete B key w of
        (Return _, w1) \<Rightarrow>
          (Return (), emit CACHE_DELETE
             [(''key'', PStr key), (''backend'', PStr (s_backend st))] w1)
      | (Raise e, w1) \<Rightarrow>
          (Return (), emit CACHE_ERROR
             [(''key'', PStr key), (''backend'', PStr (s_backend st)),
              (''error'', PStr (exn_msg e)),
              (''error_type'', PStr (class_name (exn_class e))),
              (''operation'', PStr ''delete'')] w1)
      | (Hang, w1) \<Rightarrow> (Hang, w1))"

definition manager_clear :: "('b, 'u) cache_backend \<Rightarrow> settings \<Rightarrow> ('b, 'u) world \<Rightarrow> unit outcome \<times> ('b, 'u) world" where
  "manager_clear B st w =
     (case b_clear B w of
        (Return _, w1) \<Rightarrow>
          (Return (), emit CACHE_CLEAR [(''backend'', PStr (s_backend st))] w1)
      | (Raise e, w1) \<Rightarrow>
          (Return (), emit CACHE_ERROR
             [(''backend'', PStr (s_backend st)), (''error'', PStr (exn_msg e)),
              (''error_type'', PStr (class_name (exn_class e))),
              (''operation'', PStr ''clear'')] w1)
      | (Hang, w1) \<Rightarrow> (Hang, w1))"

section \<open>The cache key\<close>

text \<open>
  A function being cached: \<open>__module__\<close>, \<open>__qualname__\<close>, the parameter names of
  \<open>inspect.signature\<close> in order, whether it is a coroutine function, and its body, which acts
  on the user state and returns, raises or never returns.
\<close>

record 'u pyfunc =
  f_module :: string
  f_qualname :: string
  f_params :: "string list"
  is_coroutine :: bool
  body :: "pyval list \<Rightarrow> (string \<times> pyval) list \<Rightarrow> 'u \<Rightarrow> pyval outcome \<times> 'u"

text \<open>\<open>':'.join(parts)\<close>.\<close>

fun join_colon :: "string list \<Rightarrow> string" where
  "join_colon [] = []"
| "join_colon [p] = p"
| "join_colon (p # q # ps) = p @ '':'' @ join_colon (q # ps)"

text \<open>The token of a positional argument: \<open>str(hash(arg))\<close>, or \<open>str(arg)\<close> when \<open>hash\<close>
  raises \<open>TypeError\<close>.\<close>

definition arg_token :: "pylib \<Rightarrow> pyval \<Rightarrow> string" where
  "arg_token L arg = (case py_hash L arg of Some h \<Rightarrow> str_int h | None \<Rightarrow> py_str L arg)"

text \<open>The loop over \<open>enumerate(args)\<close>, from index \<open>i\<close>.\<close>

fun positional_parts :: "pylib \<Rightarrow> string set \<Rightarrow> string list \<Rightarrow> nat \<Rightarrow> pyval list \<Rightarrow> string list" where
  "positional_parts L exclude_set arg_names i [] = []"
| "positional_parts L exclude_set arg_names i (arg # args) =
     (if exclude_set \<noteq> {} \<and> i < length arg_names \<and> arg_names ! i \<in> exclude_set
      then positional_parts L exclude_set arg_names (Suc i) args
      else arg_token L arg # positional_parts L exclude_set arg_names (Suc i) args)"

text \<open>The loop over \<open>sorted(kwargs.items())\<close>; the keys of a dictionary are distinct, so
  the items are sorted by key.\<close>

fun keyword_parts :: "pylib \<Rightarrow> string set \<Rightarrow> (string \<times> pyval) list \<Rightarrow> string list" where
  "keyword_parts L exclude_set [] = []"
| "keyword_parts L exclude_set ((k, v) # items) =
     (if k \<in> exclude_set then keyword_parts L exclude_set items
      else (k @ '':'' @ arg_token L v) # keyword_parts L exclude_set items)"

definition build_cache_key ::
  "pylib \<Rightarrow> settings \<Rightarrow> 'u pyfunc \<Rightarrow> pyval list \<Rightarrow> (string \<times> pyval) list
    \<Rightarrow> ('u pyfunc \<Rightarrow> pyval list \<Rightarrow> (string \<times> pyval) list \<Rightarrow> string) option
    \<Rightarrow> string option \<Rightarrow> string list option \<Rightarrow> string" where
  "build_cache_key L st func args kwargs key_builder key_prefix exclude_args =
     (case key_builder of
        Some kb \<Rightarrow> kb func args kwargs
      | None \<Rightarrow>
         (let module_name = f_module func;
              func_name = f_qualname func;
              exclude_set = set (case exclude_args of None \<Rightarrow> [] | Some xs \<Rightarrow> xs);
              arg_names = (if exclude_set \<noteq> {} then f_params func else []);
              arg_parts = positional_parts L exclude_set arg_names 0 args
                          @ keyword_parts L exclude_set (sort_key fst kwargs);
              key_str = module_name @ ''.'' @ func_name @ '':'' @ join_colon arg_parts;
              key_hash = md5_hexdigest L key_str;
              prefix = (case key_prefix of
                          None \<Rightarrow> s_key_prefix st
                        | Some p \<Rightarrow> if p = [] then s_key_prefix st else p)
          in prefix @ '':'' @ key_hash))"

section \<open>The decorator's call path\<close>

text \<open>
  \<open>_get_cached_value\<close>. Everything after the lookup is inside \<open>try\<close>; the handler
  \<open>except Exception\<close> notifies \<open>FUNCTION_ERROR\<close> and raises the exception again. The text of
  \<open>traceback.format_exc()\<close> is kept to its last line, the exception itself.
\<close>

definition function_error :: "string \<Rightarrow> string \<Rightarrow> exn \<Rightarrow> ('b, 'u) world \<Rightarrow> ('b, 'u) world" where
  "function_error func_name key e w =
     emit FUNCTION_ERROR
       [(''function'', PStr func_name), (''key'', PStr key), (''error'', PStr (exn_msg e)),
        (''error_type'', PStr (class_name (exn_class e))),
        (''traceback'', PStr (class_name (exn_class e) @ '': '' @ exn_msg e))] w"

definition get_cached_value ::
  "pylib \<Rightarrow> settings \<Rightarrow> ('b, 'u) cache_backend \<Rightarrow> 'u pyfunc \<Rightarrow> pyval list \<Rightarrow> (string \<times> pyval) list
    \<Rightarrow> int option \<Rightarrow> ('u pyfunc \<Rightarrow> pyval list \<Rightarrow> (string \<times> pyval) list \<Rightarrow> string) option
    \<Rightarrow> string option \<Rightarrow> string list option
    \<Rightarrow> ('b, 'u) world \<Rightarrow> (bool \<times> pyval) outcome \<times> ('b, 'u) world" where
  "get_cached_value L st B func args kwargs ttl key_builder key_prefix exclude_args w =
     (let key = build_cache_key L st func args kwargs key_builder key_prefix exclude_args;
          func_name = f_module func @ ''.'' @ f_qualname func
      in
        case manager_get B st key func_name w of
          (Hang, w1) \<Rightarrow> (Hang, w1)
        | (Raise e, w1) \<Rightarrow> (Raise e, w1)
        | (Return cached_value, w1) \<Rightarrow>
           (if cached_value \<noteq> PNone then (Return (True, cached_value), w1)
            else
              let w2 = emit FUNCTION_CALL_START
                         [(''function'', PStr func_name), (''key'', PStr key),
                          (''args_count'', PInt (int (length args))),
                          (''kwargs_count'', PInt (int (length kwargs)))] w1;
                  (start_time, w3) = time_time w2
              in
                case body func args kwargs (user w3) of
                  (Hang, u) \<Rightarrow> (Hang, w3\<lparr>user := u\<rparr>)
                | (Raise e, u) \<Rightarrow> (Raise e, function_error func_name key e (w3\<lparr>user := u\<rparr>))
                | (Return result, u) \<Rightarrow>
                   (let (end_time, w4) = time_time (w3\<lparr>user := u\<rparr>);
                        duration = end_time - start_time;
                        w5 = emit FUNCTION_CALL_END
                               [(''function'', PStr func_name), (''key'', PStr key),
                                (''duration'', PFloat duration),
                                (''result_type'', PStr (type_name result))] w4
                    in
                      case manager_set B st key result func_name ttl w5 of
                        (Hang, w6) \<Rightarrow> (Hang, w6)
                      | (Raise e, w6) \<Rightarrow> (Raise e, function_error func_name key e w6)
                      | (Return _, w6) \<Rightarrow> (Return (False, result), w6))))"

text \<open>
  \<open>_wrapped_func\<close>: for a coroutine function the caller awaits \<open>async_wrapper()\<close>, for a
  plain function \<open>loop.run_until_complete\<close> runs the same coroutine to its end; both return
  the second component of \<open>_get_cached_value\<close>.
\<close>

definition wrapped_func ::
  "pylib \<Rightarrow> settings \<Rightarrow> ('b, 'u) cache_backend \<Rightarrow> 'u pyfunc \<Rightarrow> pyval list \<Rightarrow> (string \<times> pyval) list
    \<Rightarrow> int option \<Rightarrow> ('u pyfunc \<Rightarrow> pyval list \<Rightarrow> (string \<times> pyval) list \<Rightarrow> string) option
    \<Rightarrow> string option \<Rightarrow> string list option
    \<Rightarrow> ('b, 'u) world \<Rightarrow> pyval outcome \<times> ('b, 'u) world" where
  "wrapped_func L st B func args kwargs ttl key_builder key_prefix exclude_args w =
     (case get_cached_value L st B func args kwargs ttl key_builder key_prefix exclude_args w of
        (Return (was_cached, result), w1) \<Rightarrow> (Return result, w1)
      | (Raise e, w1) \<Rightarrow> (Raise e, w1)
      | (Hang, w1) \<Rightarrow> (Hang, w1))"

section \<open>Properties of states and example states\<close>

text \<open>The capacity bound of a memory cache made with \<open>max_size = n\<close>.\<close>

definition within_capacity :: "int \<Rightarrow> (memory_cache, 'u) world \<Rightarrow> bool" where
  "within_capacity n w = (max_size (backend w) = Some n \<and> int (length (cache (backend w))) \<le> n)"

text \<open>A memory cache of capacity two that is full; the user state is a call counter.\<close>

definition mem_full :: "(memory_cache, nat) world" where
  "mem_full = \<lparr>clock = (\<lambda>n. 10 + real n), ticks = 0, emitted = [],
     backend = \<lparr>max_size = Some 2,
                cache = [(''a'', (PInt 1, None, 5)), (''b'', (PInt 2, None, 3))],
                lock = False\<rparr>,
     user = 0\<rparr>"

text \<open>Stand-ins for the library functions in the examples: the digest of a key is the key
  itself, the hash of an integer is the integer, lists and dictionaries are unhashable.\<close>

definition example_lib :: pylib where
  "example_lib = \<lparr>md5_hexdigest = (\<lambda>s. s),
     py_hash = (\<lambda>v. case v of PInt n \<Rightarrow> Some n | PList _ \<Rightarrow> None | PDict _ \<Rightarrow> None | _ \<Rightarrow> Some 0),
     py_str = (\<lambda>v. ''obj'')\<rparr>"

definition example_settings :: settings where
  "example_settings = \<lparr>s_backend = ''memory'', s_ttl = Some 3600, s_key_prefix = ''retainit''\<rparr>"

text \<open>An empty memory cache without a capacity bound.\<close>

definition mem_empty :: "(memory_cache, nat) world" where
  "mem_empty = \<lparr>clock = (\<lambda>n. 10 + real n), ticks = 0, emitted = [],
     backend = \<lparr>max_size = None, cache = [], lock = False\<rparr>,
     user = 0\<rparr>"

text \<open>A memory cache whose entry \<open>k\<close> expired at time 5, read from time 10 on.\<close>

definition mem_expired :: "(memory_cache, nat) world" where
  "mem_expired = \<lparr>clock = (\<lambda>n. 10 + real n), ticks = 0, emitted = [],
     backend = \<lparr>max_size = None, cache = [(''k'', (PInt 1, Some 5, 4))], lock = False\<rparr>,
     user = 0\<rparr>"

text \<open>An empty disk cache under the directory \<open>c\<close>, where no call into the file system
  fails.\<close>

definition disk_empty :: "(disk_cache, nat) world" where
  "disk_empty = \<lparr>clock = (\<lambda>n. 10 + real n), ticks = 0, emitted = [],
     backend = \<lparr>base_directory = ''c'', compression = False, file_locks = [],
                global_lock = False, files = (\<lambda>p. None), faults = (\<lambda>op p. False)\<rparr>,
     user = 0\<rparr>"

text \<open>A disk cache whose file for the key \<open>k\<close> holds an entry that expired at time 5.\<close>

definition disk_expired :: "(disk_cache, nat) world" where
  "disk_expired = \<lparr>clock = (\<lambda>n. 10 + real n), ticks = 0, emitted = [],
     backend = \<lparr>base_directory = ''c'', compression = False, file_locks = [],
                global_lock = False,
                files = (\<lambda>p. if p = ''c/k/k.cache''
                              then Some (Pickled \<lparr>env_value = PInt 1, env_expiry = Some 5, env_created = 4\<rparr>)
                              else None),
                faults = (\<lambda>op p. False)\<rparr>,
     user = 0\<rparr>"


text \<open>A disk cache where the shard directory of the key \<open>k\<close> cannot be made.\<close>

definition disk_mkdir_fails :: "(disk_cache, nat) world" where
  "disk_mkdir_fails = \<lparr>clock = (\<lambda>n. 10 + real n), ticks = 0, emitted = [],
     backend = \<lparr>base_directory = ''c'', compression = False, file_locks = [],
                global_lock = False, files = (\<lambda>p. None),
                faults = (\<lambda>op p. op = Mkdir \<and> p = ''c/k'')\<rparr>,
     user = 0\<rparr>"

text \<open>The round trip of a value through a backend: \<open>set(key, v, ttl=None)\<close> returns, and the
  \<open>get(key)\<close> that follows returns \<open>v\<close>.\<close>

definition round_trip :: "('b, 'u) cache_backend \<Rightarrow> string \<Rightarrow> pyval \<Rightarrow> ('b, 'u) world \<Rightarrow> bool" where
  "round_trip B key v w =
     (fst (b_set B key v None w) = Return ()
      \<and> fst (b_get B key (snd (b_set B key v None w))) = Return v)"

text \<open>A disk cache is ready for the key: its locks are free and none of the calls into the
  file system that \<open>set\<close> and \<open>get\<close> make for the key fails.\<close>

definition disk_ready :: "pylib \<Rightarrow> string \<Rightarrow> disk_cache \<Rightarrow> bool" where
  "disk_ready L key dc =
     (let subdir = subdir_of L dc key;
          path = path_of L dc key;
          temp_path = temp_path_of L dc key
      in \<not> global_lock dc \<and> \<not> lock_held path dc
         \<and> \<not> faults dc Mkdir subdir \<and> \<not> faults dc Makedirs subdir
         \<and> \<not> faults dc OpenWrite temp_path \<and> \<not> faults dc WriteFile temp_path
         \<and> \<not> faults dc Replace temp_path
         \<and> \<not> faults dc OpenRead path \<and> \<not> faults dc ReadFile path)"


definition disk_settings :: settings where
  "disk_settings = \<lparr>s_backend = ''disk'', s_ttl = Some 3600, s_key_prefix = ''retainit''\<rparr>"

text \<open>The locks that \<open>set\<close> of a disk cache takes for the key are free.\<close>

definition disk_locks_free :: "pylib \<Rightarrow> string \<Rightarrow> disk_cache \<Rightarrow> bool" where
  "disk_locks_free L key dc = (\<not> global_lock dc \<and> \<not> lock_held (path_of L dc key) dc)"



text \<open>The entry of the key in a memory cache, if there is one, has not expired at the next
  reading of the clock.\<close>

definition entry_live :: "string \<Rightarrow> (memory_cache, 'u) world \<Rightarrow> bool" where
  "entry_live key w =
     (case map_of (cache (backend w)) key of
        None \<Rightarrow> True
      | Some (v, expiry, la) \<Rightarrow> \<not> (truthy_float expiry \<and> clock w (ticks w) > the expiry))"

text \<open>\<open>calculate_square(n)\<close> of the examples, with a counter of its calls, and a function
  that returns \<open>None\<close>, and one that raises.\<close>

definition square :: "nat pyfunc" where
  "square = \<lparr>f_module = ''__main__'', f_qualname = ''calculate_square'',
     f_params = [''n''], is_coroutine = False,
     body = (\<lambda>args kwargs c. case args of
               [PInt n] \<Rightarrow> (Return (PInt (n * n)), Suc c)
             | _ \<Rightarrow> (Raise (Exn TypeError ''unsupported operand''), c))\<rparr>"

definition returns_none :: "nat pyfunc" where
  "returns_none = \<lparr>f_module = ''__main__'', f_qualname = ''notify'',
     f_params = [''n''], is_coroutine = True,
     body = (\<lambda>args kwargs c. (Return PNone, Suc c))\<rparr>"


definition square_key :: string where
  "square_key = build_cache_key example_lib example_settings square [PInt 5] [] None None None"

text \<open>The memory cache after \<open>calculate_square(5)\<close> ran once and its result was stored.\<close>

definition mem_squared :: "(memory_cache, nat) world" where
  "mem_squared = \<lparr>clock = (\<lambda>n. 10 + real n), ticks = 3, emitted = [],
     backend = \<lparr>max_size = None, cache = [(square_key, (PInt 25, Some 3611, 12))], lock = False\<rparr>,
     user = 1\<rparr>"

text \<open>The key of \<open>notify(1)\<close>, and the memory cache after the cache manager stored the
  \<open>None\<close> it returned.\<close>

definition none_key :: string where
  "none_key = build_cache_key example_lib example_settings returns_none [PInt 1] [] None None None"

definition mem_after_none :: "(memory_cache, nat) world" where
  "mem_after_none =
     snd (manager_set MemoryCache example_settings none_key PNone ''__main__.notify'' None mem_empty)"

section \<open>Lists, dictionaries and the memory cache: auxiliary facts\<close>

lemma py_min_from_in: "py_min_from f b xs \<in> set (b # xs)"
  by (induction xs arbitrary: b) auto

lemma py_min_from_le_best: "f (py_min_from f b xs) \<le> f b"
proof (induction xs arbitrary: b)
  case Nil
  show ?case by simp
next
  case (Cons x xs)
  have "f (py_min_from f (if f x < f b then x else b) xs) \<le> f (if f x < f b then x else b)"
    by (rule Cons.IH)
  also have "\<dots> \<le> f b" by simp
  finally show ?case by simp
qed

lemma py_min_from_le: "y \<in> set (b # xs) \<Longrightarrow> f (py_min_from f b xs) \<le> f y"
proof (induction xs arbitrary: b)
  case Nil
  then show ?case by simp
next
  case (Cons x xs)
  let ?b = "if f x < f b then x else b"
  have le: "f (py_min_from f ?b xs) \<le> f ?b" by (rule py_min_from_le_best)
  from Cons.prems have "y = b \<or> y = x \<or> y \<in> set xs" by auto
  then show ?case
  proof (elim disjE)
    assume "y = b" with le show ?thesis by (simp split: if_splits)
  next
    assume "y = x" with le show ?thesis by (simp split: if_splits)
  next
    assume "y \<in> set xs"
    then have "y \<in> set (?b # xs)" by simp
    from Cons.IH [OF this] show ?thesis by simp
  qed
qed

lemma py_min_Some:
  "xs \<noteq> [] \<Longrightarrow> \<exists>m. py_min f xs = Some m \<and> m \<in> set xs \<and> (\<forall>y\<in>set xs. f m \<le> f y)"
proof (cases xs)
  case Nil
  assume "xs \<noteq> []"
  with Nil show ?thesis by simp
next
  case (Cons x rest)
  have "py_min_from f x rest \<in> set (x # rest)" by (rule py_min_from_in)
  moreover have "\<forall>y\<in>set (x # rest). f (py_min_from f x rest) \<le> f y"
    using py_min_from_le [of _ x rest f] by blast
  ultimately show ?thesis using Cons by (simp add: py_min_def)
qed

lemma delete_is_remove1:
  "distinct (map fst al) \<Longrightarrow> (k, v) \<in> set al \<Longrightarrow> AList.delete k al = remove1 (k, v) al"
proof (induction al)
  case Nil
  then show ?case by simp
next
  case (Cons p ps)
  show ?case
  proof (cases "fst p = k")
    case True
    with Cons.prems have pv: "p = (k, v)" by (cases p) (auto simp: image_iff)
    from Cons.prems True have "k \<notin> fst ` set ps" by simp
    then have "AList.delete k ps = ps" by simp
    with pv show ?thesis by (simp add: AList.delete_eq)
  next
    case False
    with Cons show ?thesis by (cases p) (auto simp: AList.delete_eq)
  qed
qed

lemma update_absent:
  "k \<notin> fst ` set al \<Longrightarrow> AList.update k v al = al @ [(k, v)]"
  by (induction al) auto

lemma length_update_present:
  "k \<in> fst ` set al \<Longrightarrow> length (AList.update k v al) = length al"
  by (induction al) auto

lemma length_update_le: "length (AList.update k v al) \<le> Suc (length al)"
  by (induction al) auto

lemma map_fst_update_present:
  "k \<in> fst ` set al \<Longrightarrow> map fst (AList.update k v al) = map fst al"
  by (induction al) auto

lemma length_delete_member:
  "k \<in> fst ` set al \<Longrightarrow> length (AList.delete k al) < length al"
proof -
  assume "k \<in> fst ` set al"
  then obtain v where "(k, v) \<in> set al" by auto
  moreover have "\<not> (case (k, v) of (k', _) \<Rightarrow> k \<noteq> k')" by simp
  ultimately show ?thesis unfolding AList.delete_eq by (rule length_filter_less)
qed

lemma evict_lru_nonempty:
  assumes "cache m \<noteq> []"
  shows "\<exists>old\<in>set (cache m). (\<forall>e\<in>set (cache m). last_access old \<le> last_access e)
           \<and> evict_lru m = m\<lparr>cache := AList.delete (fst old) (cache m)\<rparr>"
proof -
  from py_min_Some [OF assms, of last_access]
  obtain old where o: "py_min last_access (cache m) = Some old"
      "old \<in> set (cache m)" "\<forall>y\<in>set (cache m). last_access old \<le> last_access y"
    by blast
  then have "evict_lru m = m\<lparr>cache := AList.delete (fst old) (cache m)\<rparr>"
    using assms by (simp add: evict_lru_def dict_contains_def)
  with o show ?thesis by blast
qed

lemma mem_set_cache:
  assumes "\<not> lock (backend w)"
  shows "\<exists>expiry t. cache (backend (snd (mem_set key v ttl w))) =
           AList.update key (v, expiry, t)
             (if truthy_int (max_size (backend w))
                 \<and> int (length (cache (backend w))) \<ge> the (max_size (backend w))
                 \<and> \<not> dict_contains key (cache (backend w))
              then cache (evict_lru ((backend w)\<lparr>lock := True\<rparr>))
              else cache (backend w))"
proof (cases "truthy_int ttl")
  case True
  with assms show ?thesis
    by (simp add: mem_set_def Let_def mem_lock_def mem_store_def time_time_def) blast
next
  case False
  with assms show ?thesis
    by (simp add: mem_set_def Let_def mem_lock_def mem_store_def time_time_def) blast
qed

lemma update_keeps_others:
  "e \<in> set al \<Longrightarrow> fst e \<noteq> k \<Longrightarrow> e \<in> set (AList.update k v al)"
  by (induction al) auto

lemma evict_lru_max_size: "max_size (evict_lru m) = max_size m"
  by (simp add: evict_lru_def split: option.splits)

lemma mem_set_max_size: "max_size (backend (snd (mem_set key v ttl w))) = max_size (backend w)"
  by (simp add: mem_set_def Let_def mem_lock_def mem_store_def time_time_def evict_lru_max_size
      split: prod.splits)

lemma mem_set_length:
  assumes "max_size (backend w) = Some n" and "0 < n"
    and "int (length (cache (backend w))) \<le> n"
  shows "int (length (cache (backend (snd (mem_set key v ttl w))))) \<le> n"
proof (cases "lock (backend w)")
  case True
  with assms show ?thesis by (simp add: mem_set_def)
next
  case False
  let ?c = "cache (backend w)"
  from mem_set_cache [OF False, of key v ttl] obtain expiry t where
    c': "cache (backend (snd (mem_set key v ttl w))) =
           AList.update key (v, expiry, t)
             (if truthy_int (max_size (backend w))
                 \<and> int (length ?c) \<ge> the (max_size (backend w))
                 \<and> \<not> dict_contains key ?c
              then cache (evict_lru ((backend w)\<lparr>lock := True\<rparr>))
              else ?c)"
    by blast
  show ?thesis
  proof (cases "int (length ?c) \<ge> n \<and> \<not> dict_contains key ?c")
    case True
    with assms have ne: "cache ((backend w)\<lparr>lock := True\<rparr>) \<noteq> []" by auto
    from evict_lru_nonempty [OF ne] obtain old where
      old: "old \<in> set ?c"
        "evict_lru ((backend w)\<lparr>lock := True\<rparr>) =
           (backend w)\<lparr>lock := True, cache := AList.delete (fst old) ?c\<rparr>"
      by auto
    from old(1) have "fst old \<in> fst ` set ?c" by (rule imageI)
    then have "length (AList.delete (fst old) ?c) < length ?c" by (rule length_delete_member)
    moreover have "length (AList.update key (v, expiry, t) (AList.delete (fst old) ?c))
        \<le> Suc (length (AList.delete (fst old) ?c))" by (rule length_update_le)
    ultimately have "length (AList.update key (v, expiry, t) (AList.delete (fst old) ?c)) \<le> length ?c"
      by linarith
    with True assms old(2) c' show ?thesis by simp
  next
    case False
    then have "dict_contains key ?c \<or> int (length ?c) < n" by auto
    then have "int (length (AList.update key (v, expiry, t) ?c)) \<le> n"
    proof
      assume "dict_contains key ?c"
      then have "key \<in> fst ` set ?c" by (simp add: dict_contains_def)
      then have "length (AList.update key (v, expiry, t) ?c) = length ?c"
        by (rule length_update_present)
      with assms show ?thesis by simp
    next
      assume "int (length ?c) < n"
      moreover have "length (AList.update key (v, expiry, t) ?c) \<le> Suc (length ?c)"
        by (rule length_update_le)
      ultimately show ?thesis by linarith
    qed
    with False assms c' show ?thesis by auto
  qed
qed

lemma mem_delete_length:
  "length (cache (backend (snd (mem_delete key w)))) \<le> length (cache (backend w))"
  by (simp add: mem_delete_def Let_def mem_lock_def mem_store_def length_delete_le)

lemma mem_delete_max_size: "max_size (backend (snd (mem_delete key w))) = max_size (backend w)"
  by (simp add: mem_delete_def Let_def mem_lock_def mem_store_def)

lemma mem_clear_length: "length (cache (backend (snd (mem_clear w)))) \<le> length (cache (backend w))"
  by (simp add: mem_clear_def Let_def mem_lock_def mem_store_def)

lemma mem_clear_max_size: "max_size (backend (snd (mem_clear w))) = max_size (backend w)"
  by (simp add: mem_clear_def Let_def mem_lock_def mem_store_def)

lemma mem_delete_held: "lock (backend w) \<Longrightarrow> mem_delete key w = (Hang, w)"
  by (simp add: mem_delete_def)

lemma mem_touch_length:
  "key \<in> fst ` set (cache (backend w)) \<Longrightarrow>
   length (cache (backend (snd (mem_touch key v e w)))) = length (cache (backend w))"
  by (simp add: mem_touch_def Let_def mem_lock_def mem_store_def time_time_def length_update_present)

lemma mem_touch_max_size: "max_size (backend (snd (mem_touch key v e w))) = max_size (backend w)"
  by (simp add: mem_touch_def Let_def mem_lock_def mem_store_def time_time_def)

lemma mem_get_length:
  "length (cache (backend (snd (mem_get key w)))) = length (cache (backend w))"
proof (cases "lock (backend w)")
  case True
  then show ?thesis by (simp add: mem_get_def)
next
  case False
  show ?thesis
  proof (cases "map_of (cache (backend w)) key")
    case None
    with False show ?thesis by (simp add: mem_get_def mem_lock_def)
  next
    case (Some ent)
    then have "key \<in> fst ` set (cache (backend w))"
      by (metis domI dom_map_of_conv_image_fst)
    then have mem: "key \<in> fst ` set (cache (backend w))" .
    obtain v e la where ent: "ent = (v, e, la)" by (cases ent) auto
    from False Some ent mem
    show ?thesis
      by (simp add: mem_get_def Let_def mem_lock_def time_time_def mem_delete_held
          mem_touch_length)
  qed
qed

lemma mem_get_max_size: "max_size (backend (snd (mem_get key w))) = max_size (backend w)"
  by (simp add: mem_get_def Let_def mem_lock_def time_time_def mem_delete_held mem_touch_max_size
      split: option.splits prod.splits)


section \<open>Reading and writing one entry: auxiliary facts\<close>

lemma mem_get_expired_hangs:
  assumes "\<not> lock (backend w)"
    and "map_of (cache (backend w)) key = Some (v, Some e, la)"
    and "e \<noteq> 0" and "clock w (ticks w) > e"
  shows "mem_get key w = (Hang, w\<lparr>ticks := Suc (ticks w), backend := (backend w)\<lparr>lock := True\<rparr>\<rparr>)"
  using assms
  by (simp add: mem_get_def mem_lock_def time_time_def mem_delete_def)

lemma mem_set_None:
  assumes "\<not> lock (backend w)"
  shows "fst (mem_set key v None w) = Return ()"
    and "\<not> lock (backend (snd (mem_set key v None w)))"
    and "\<exists>t. map_of (cache (backend (snd (mem_set key v None w)))) key = Some (v, None, t)"
  using assms
  by (simp_all add: mem_set_def Let_def mem_lock_def mem_store_def time_time_def update_conv')

lemma mem_get_live:
  "\<not> lock (backend w) \<Longrightarrow> map_of (cache (backend w)) key = Some (v, None, t)
   \<Longrightarrow> fst (mem_get key w) = Return v"
  by (simp add: mem_get_def Let_def mem_lock_def mem_touch_def mem_store_def time_time_def)

lemma mem_round_trip:
  assumes "\<not> lock (backend w)"
  shows "round_trip MemoryCache key v w"
proof -
  from mem_set_None(3) [OF assms, of key v] obtain t where
    "map_of (cache (backend (snd (mem_set key v None w)))) key = Some (v, None, t)" by blast
  with mem_set_None(2) [OF assms, of key v]
  have "fst (mem_get key (snd (mem_set key v None w))) = Return v" by (rule mem_get_live)
  with mem_set_None(1) [OF assms, of key v]
  show ?thesis by (simp add: round_trip_def MemoryCache_def)
qed

lemma disk_round_trip:
  assumes "disk_ready L key (backend w)" and "picklable v"
  shows "round_trip (DiskCache L) key v w"
  using assms
  by (simp add: round_trip_def DiskCache_def disk_set_def write_entry_def disk_get_def disk_ready_def
      key_to_path_def path_of_def subdir_of_def temp_path_of_def get_file_lock_def Let_def
      disk_lock_def disk_files_def lock_held_def dict_contains_def time_time_def
      dump_blob_def pickle_dumps_def picklable_def zlib_compress_def load_blob_def update_conv'
      split: prod.splits)

section \<open>The parts of a cache key: auxiliary facts\<close>









section \<open>The cache manager when its backend raises: auxiliary facts\<close>

text \<open>Whatever exception a backend call raises, the manager returns normally (\<open>None\<close>
  from \<open>get\<close>) and notifies \<open>CACHE_ERROR\<close> with the class of the exception.\<close>

lemma manager_get_backend_raises:
  "b_get B key w = (Raise e, w1) \<Longrightarrow>
   manager_get B st key fn w =
     (Return PNone, emit CACHE_ERROR
        [(''key'', PStr key), (''function'', PStr fn), (''backend'', PStr (s_backend st)),
         (''error'', PStr (exn_msg e)), (''error_type'', PStr (class_name (exn_class e)))] w1)"
  by (simp add: manager_get_def)

lemma manager_set_backend_raises:
  "b_set B key v (ttl_or ttl (s_ttl st)) w = (Raise e, w1) \<Longrightarrow>
   manager_set B st key v fn ttl w =
     (Return (), emit CACHE_ERROR
        [(''key'', PStr key), (''function'', PStr fn), (''backend'', PStr (s_backend st)),
         (''error'', PStr (exn_msg e)), (''error_type'', PStr (class_name (exn_class e))),
         (''operation'', PStr ''set'')] w1)"
  by (simp add: manager_set_def)

lemma manager_delete_backend_raises:
  "b_delete B key w = (Raise e, w1) \<Longrightarrow>
   manager_delete B st key w =
     (Return (), emit CACHE_ERROR
        [(''key'', PStr key), (''backend'', PStr (s_backend st)),
         (''error'', PStr (exn_msg e)), (''error_type'', PStr (class_name (exn_class e))),
         (''operation'', PStr ''delete'')] w1)"
  by (simp add: manager_delete_def)

lemma manager_clear_backend_raises:
  "b_clear B w = (Raise e, w1) \<Longrightarrow>
   manager_clear B st w =
     (Return (), emit CACHE_ERROR
        [(''backend'', PStr (s_backend st)),
         (''error'', PStr (exn_msg e)), (''error_type'', PStr (class_name (exn_class e))),
         (''operation'', PStr ''clear'')] w1)"
  by (simp add: manager_clear_def)


section \<open>Writing an entry of the disk cache: auxiliary facts\<close>

lemma path_not_temp: "path_of L dc key \<noteq> temp_path_of L dc key"
  by (simp add: path_of_def temp_path_of_def)

lemma disk_lock_fields:
  "files (backend (disk_lock p b w)) = files (backend w)"
  "faults (backend (disk_lock p b w)) = faults (backend w)"
  "compression (backend (disk_lock p b w)) = compression (backend w)"
  "base_directory (backend (disk_lock p b w)) = base_directory (backend w)"
  "global_lock (backend (disk_lock p b w)) = global_lock (backend w)"
  "emitted (disk_lock p b w) = emitted w"
  "user (disk_lock p b w) = user w"
  by (simp_all add: disk_lock_def)

lemma disk_files_fields:
  "files (backend (disk_files fs w)) = fs"
  "faults (backend (disk_files fs w)) = faults (backend w)"
  "compression (backend (disk_files fs w)) = compression (backend w)"
  "base_directory (backend (disk_files fs w)) = base_directory (backend w)"
  "emitted (disk_files fs w) = emitted w"
  "user (disk_files fs w) = user w"
  by (simp_all add: disk_files_def)

lemma time_time_fields:
  "backend (snd (time_time w)) = backend w"
  "emitted (snd (time_time w)) = emitted w"
  "user (snd (time_time w)) = user w"
  by (simp_all add: time_time_def)

lemma set_handler_result:
  "fst (set_handler True tp w) = Return ()"
  "emitted (snd (set_handler True tp w)) = emitted w"
  "p \<noteq> tp \<Longrightarrow> files (backend (snd (set_handler True tp w))) p = files (backend w) p"
  "\<not> faults (backend w) Unlink tp \<Longrightarrow> files (backend (snd (set_handler True tp w))) tp = None"
  by (auto simp add: set_handler_def disk_files_fields)

lemma dump_blob_cases:
  "refusal (env_value data) = None \<Longrightarrow> \<exists>b. dump_blob c data = Inr b"
  "refusal (env_value data) = Some e \<Longrightarrow> dump_blob c data = Inl e"
  by (simp_all add: dump_blob_def pickle_dumps_def)



lemma write_entry_refused:
  assumes "\<not> faults (backend w4) Makedirs (subdir_of L (backend w4) key)"
    and "\<not> faults (backend w4) OpenWrite tp"
    and "refusal (env_value data) = Some e"
  shows "p \<noteq> tp \<Longrightarrow> files (backend (snd (write_entry L key path tp data w4))) p = files (backend w4) p"
    and "\<not> is_PickleError e \<Longrightarrow> \<not> is_OSError e \<Longrightarrow>
         fst (write_entry L key path tp data w4) = Raise e
         \<and> files (backend (snd (write_entry L key path tp data w4))) tp = Some (Garbage [])"
  using assms dump_blob_cases(2) [OF assms(3), of "compression (backend w4)"]
  by (simp_all add: write_entry_def Let_def set_handler_result disk_lock_fields disk_files_fields)

lemma get_file_lock_free:
  assumes "\<not> global_lock (backend w)" and "\<not> lock_held p (backend w)"
  shows "\<exists>w1. get_file_lock p w = (Return (), w1)
           \<and> \<not> lock_held p (backend w1)
           \<and> files (backend w1) = files (backend w) \<and> faults (backend w1) = faults (backend w)
           \<and> base_directory (backend w1) = base_directory (backend w)
           \<and> emitted w1 = emitted w \<and> clock w1 = clock w \<and> ticks w1 = ticks w"
  using assms
  by (simp add: get_file_lock_def disk_lock_def lock_held_def update_conv')

lemma disk_set_started:
  assumes "disk_locks_free L key (backend w)"
    and "\<not> faults (backend w) Mkdir (subdir_of L (backend w) key)"
  shows "\<exists>data w4. disk_set L key v ttl w
             = write_entry L key (path_of L (backend w) key) (temp_path_of L (backend w) key) data w4
           \<and> env_value data = v
           \<and> files (backend w4) = files (backend w) \<and> faults (backend w4) = faults (backend w)
           \<and> base_directory (backend w4) = base_directory (backend w)
           \<and> emitted w4 = emitted w"
proof -
  let ?p = "path_of L (backend w) key"
  from assms have k: "key_to_path L (backend w) key = Inr ?p"
    and g: "\<not> global_lock (backend w)" and h: "\<not> lock_held ?p (backend w)"
    by (simp_all add: disk_locks_free_def key_to_path_def)
  from get_file_lock_free [OF g h] obtain w1 where
    w1: "get_file_lock ?p w = (Return (), w1)" "\<not> lock_held ?p (backend w1)"
      "files (backend w1) = files (backend w)" "faults (backend w1) = faults (backend w)"
      "base_directory (backend w1) = base_directory (backend w)" "emitted w1 = emitted w"
    by blast
  show ?thesis
  proof (cases "truthy_int ttl")
    case True
    let ?w3 = "snd (time_time (snd (time_time w1)))"
    let ?data = "\<lparr>env_value = v, env_expiry = Some (fst (time_time w1) + real_of_int (the ttl)),
                  env_created = fst (time_time (snd (time_time w1)))\<rparr>"
    from k w1 True have "disk_set L key v ttl w
        = write_entry L key ?p (temp_path_of L (backend w) key) ?data (disk_lock ?p True ?w3)"
      by (simp add: disk_set_def Let_def split_beta time_time_fields temp_path_of_def subdir_of_def)
    moreover have "files (backend (disk_lock ?p True ?w3)) = files (backend w)"
      "faults (backend (disk_lock ?p True ?w3)) = faults (backend w)"
      "base_directory (backend (disk_lock ?p True ?w3)) = base_directory (backend w)"
      "emitted (disk_lock ?p True ?w3) = emitted w"
      using w1 by (simp_all add: disk_lock_fields time_time_fields)
    moreover have "env_value ?data = v" by simp
    ultimately show ?thesis by blast
  next
    case False
    let ?w3 = "snd (time_time w1)"
    let ?data = "\<lparr>env_value = v, env_expiry = None, env_created = fst (time_time w1)\<rparr>"
    from k w1 False have "disk_set L key v ttl w
        = write_entry L key ?p (temp_path_of L (backend w) key) ?data (disk_lock ?p True ?w3)"
      by (simp add: disk_set_def Let_def split_beta time_time_fields temp_path_of_def subdir_of_def)
    moreover have "files (backend (disk_lock ?p True ?w3)) = files (backend w)"
      "faults (backend (disk_lock ?p True ?w3)) = faults (backend w)"
      "base_directory (backend (disk_lock ?p True ?w3)) = base_directory (backend w)"
      "emitted (disk_lock ?p True ?w3) = emitted w"
      using w1 by (simp_all add: disk_lock_fields time_time_fields)
    moreover have "env_value ?data = v" by simp
    ultimately show ?thesis by blast
  qed
qed




lemma disk_set_refused:
  assumes "disk_ready L key (backend w)" and "refusal v = Some e"
  shows "files (backend (snd (disk_set L key v ttl w))) (path_of L (backend w) key)
           = files (backend w) (path_of L (backend w) key)"
    and "\<not> is_PickleError e \<Longrightarrow> \<not> is_OSError e \<Longrightarrow>
         fst (disk_set L key v ttl w) = Raise e
         \<and> files (backend (snd (disk_set L key v ttl w))) (temp_path_of L (backend w) key)
             = Some (Garbage [])"
proof -
  let ?tp = "temp_path_of L (backend w) key"
  let ?p = "path_of L (backend w) key"
  from assms(1) have lf: "disk_locks_free L key (backend w)"
    and nm: "\<not> faults (backend w) Mkdir (subdir_of L (backend w) key)"
    and nd: "\<not> faults (backend w) Makedirs (subdir_of L (backend w) key)"
    and no: "\<not> faults (backend w) OpenWrite ?tp"
    by (simp_all add: disk_ready_def disk_locks_free_def Let_def)
  from disk_set_started [OF lf nm, of v ttl] obtain data w4 where
    s: "disk_set L key v ttl w = write_entry L key ?p ?tp data w4"
    and dv: "env_value data = v"
    and f: "files (backend w4) = files (backend w)" "faults (backend w4) = faults (backend w)"
      "base_directory (backend w4) = base_directory (backend w)" "emitted w4 = emitted w"
    by blast
  from nd f have a: "\<not> faults (backend w4) Makedirs (subdir_of L (backend w4) key)"
    by (simp add: subdir_of_def)
  from no f have b: "\<not> faults (backend w4) OpenWrite ?tp" by simp
  from assms(2) dv have c: "refusal (env_value data) = Some e" by simp
  from write_entry_refused(1) [OF a b c, of ?p ?p] path_not_temp [of L "backend w" key] s f
  show "files (backend (snd (disk_set L key v ttl w))) ?p = files (backend w) ?p" by simp
  assume "\<not> is_PickleError e" "\<not> is_OSError e"
  from write_entry_refused(2) [OF a b c this, of ?p] s
  show "fst (disk_set L key v ttl w) = Raise e
         \<and> files (backend (snd (disk_set L key v ttl w))) ?tp = Some (Garbage [])" by simp
qed


section \<open>The cache manager over the memory cache: auxiliary facts\<close>

lemma mem_set_Return:
  assumes "mem_set key v ttl w = (Return x, w1)"
  shows "\<not> lock (backend w1)"
    and "\<exists>ex t. map_of (cache (backend w1)) key = Some (v, ex, t)"
    and "user w1 = user w"
proof -
  from assms have nl: "\<not> lock (backend w)" by (auto simp: mem_set_def split: if_splits)
  from assms nl show "\<not> lock (backend w1)"
    by (auto simp: mem_set_def Let_def mem_lock_def mem_store_def time_time_def split: prod.splits if_splits)
  from assms nl show "\<exists>ex t. map_of (cache (backend w1)) key = Some (v, ex, t)"
    by (auto simp: mem_set_def Let_def mem_lock_def mem_store_def time_time_def update_conv'
        split: prod.splits if_splits)
  from assms nl show "user w1 = user w"
    by (auto simp: mem_set_def Let_def mem_lock_def mem_store_def time_time_def split: prod.splits if_splits)
qed

lemma mem_set_free:
  "\<not> lock (backend w) \<Longrightarrow> fst (mem_set key v ttl w) = Return ()"
  "user (snd (mem_set key v ttl w)) = user w"
  by (simp_all add: mem_set_def Let_def mem_lock_def mem_store_def time_time_def split: prod.splits)

lemma mem_get_stored_live:
  assumes "\<not> lock (backend w)" and "map_of (cache (backend w)) key = Some (v, ex, t)"
    and "entry_live key w"
  shows "fst (mem_get key w) = Return v"
    and "emitted (snd (mem_get key w)) = emitted w"
    and "user (snd (mem_get key w)) = user w"
    and "\<not> lock (backend (snd (mem_get key w)))"
  using assms
  by (simp_all add: mem_get_def entry_live_def Let_def mem_lock_def mem_touch_def mem_store_def
      time_time_def)

lemma manager_set_mem_free:
  assumes "\<not> lock (backend w)"
  shows "manager_set MemoryCache st key v fn ttl w =
     (Return (), emit CACHE_SET
        [(''key'', PStr key), (''function'', PStr fn), (''backend'', PStr (s_backend st)),
         (''ttl'', int_val (ttl_or ttl (s_ttl st)))]
        (snd (mem_set key v (ttl_or ttl (s_ttl st)) w)))"
proof -
  from mem_set_free(1) [OF assms, of key v "ttl_or ttl (s_ttl st)"]
  obtain w' where "mem_set key v (ttl_or ttl (s_ttl st)) w = (Return (), w')"
    by (cases "mem_set key v (ttl_or ttl (s_ttl st)) w") auto
  then show ?thesis by (simp add: manager_set_def MemoryCache_def)
qed

lemma manager_set_mem_Return:
  assumes "manager_set MemoryCache st key v fn ttl w = (Return (), w1)"
  shows "\<not> lock (backend w1)"
    and "\<exists>ex t. map_of (cache (backend w1)) key = Some (v, ex, t)"
proof -
  obtain o' w' where ms: "mem_set key v (ttl_or ttl (s_ttl st)) w = (o', w')"
    by (cases "mem_set key v (ttl_or ttl (s_ttl st)) w") auto
  have "lock (backend w) \<Longrightarrow> False"
    using assms by (simp add: manager_set_def MemoryCache_def mem_set_def)
  then have nl: "\<not> lock (backend w)" by blast
  from mem_set_free(1) [OF nl, of key v "ttl_or ttl (s_ttl st)"] ms have o: "o' = Return ()" by simp
  with ms assms have w1: "backend w1 = backend w'"
    by (auto simp: manager_set_def MemoryCache_def emit_def)
  from ms o mem_set_Return [of key v "ttl_or ttl (s_ttl st)" w "()" w'] w1
  show "\<not> lock (backend w1)" and "\<exists>ex t. map_of (cache (backend w1)) key = Some (v, ex, t)"
    by simp_all
qed

lemma manager_get_mem_absent:
  assumes "\<not> lock (backend w)" and "map_of (cache (backend w)) key = None"
  shows "fst (manager_get MemoryCache st key fn w) = Return PNone"
    and "backend (snd (manager_get MemoryCache st key fn w)) = backend w"
  using assms
  by (simp_all add: manager_get_def MemoryCache_def mem_get_def mem_lock_def emit_def Let_def)

section \<open>C1: reading an expired entry\<close>

text \<open>
  Claim C1 says that \<open>get\<close> of a key whose entry has expired returns \<open>None\<close> and removes
  the entry. Both backends instead await their own \<open>delete\<close> while they hold the lock that
  \<open>delete\<close> takes, so the call never returns: for the memory cache and for the disk cache
  whose entry \<open>k\<close> expired at time 5, \<open>get\<close> at time 10 hangs, the entry is still in the
  dictionary and the file still exists, and the lock stays held.
\<close>

theorem get_expired_never_returns:
  "fst (mem_get ''k'' mem_expired) = Hang
   \<and> dict_contains ''k'' (cache (backend (snd (mem_get ''k'' mem_expired))))
   \<and> lock (backend (snd (mem_get ''k'' mem_expired)))
   \<and> fst (disk_get example_lib ''k'' disk_expired) = Hang
   \<and> files (backend (snd (disk_get example_lib ''k'' disk_expired))) ''c/k/k.cache'' \<noteq> None
   \<and> lock_held ''c/k/k.cache'' (backend (snd (disk_get example_lib ''k'' disk_expired)))"
proof -
  have "fst (mem_get ''k'' mem_expired) = Hang
   \<and> dict_contains ''k'' (cache (backend (snd (mem_get ''k'' mem_expired))))
   \<and> lock (backend (snd (mem_get ''k'' mem_expired)))"
    by (simp add: mem_get_def mem_expired_def mem_lock_def time_time_def mem_delete_def
        dict_contains_def)
  moreover have "fst (disk_get example_lib ''k'' disk_expired) = Hang
   \<and> files (backend (snd (disk_get example_lib ''k'' disk_expired))) ''c/k/k.cache'' \<noteq> None
   \<and> lock_held ''c/k/k.cache'' (backend (snd (disk_get example_lib ''k'' disk_expired)))"
    by (simp add: disk_get_def disk_expired_def example_lib_def key_to_path_def path_of_def subdir_of_def
        get_file_lock_def dict_contains_def disk_lock_def lock_held_def load_blob_def
        time_time_def disk_delete_def Let_def)
  ultimately show ?thesis by blast
qed

section \<open>C2: the round trip of a value\<close>

text \<open>
  Claim C2, as stated, fails for the disk cache: \<open>pickle\<close> refuses some values, a lambda
  for one. \<open>set\<close> then writes no entry (it catches the \<open>PicklingError\<close>), and on an empty
  cache the \<open>get\<close> that follows finds no file and returns \<open>None\<close>.
\<close>

theorem disk_round_trip_counterexample:
  "disk_ready example_lib ''k'' (backend disk_empty)
   \<and> fst (disk_get example_lib ''k'' (snd (disk_set example_lib ''k'' (PLambda ''f'') None disk_empty)))
       = Return PNone
   \<and> \<not> round_trip (DiskCache example_lib) ''k'' (PLambda ''f'') disk_empty"
  by (simp add: round_trip_def DiskCache_def disk_set_def write_entry_def disk_get_def disk_ready_def
      key_to_path_def path_of_def subdir_of_def temp_path_of_def get_file_lock_def Let_def
      disk_lock_def disk_files_def lock_held_def dict_contains_def time_time_def
      dump_blob_def pickle_dumps_def set_handler_def disk_empty_def example_lib_def)

text \<open>
  Claim C2, amended. For the memory cache whose lock is free, \<open>set(k, v, ttl=None)\<close> then
  \<open>get(k)\<close> returns \<open>v\<close> for every key and every value. For the disk cache that is ready for
  the key (locks free, no call into the file system failing), the same holds for every key
  and every value that \<open>pickle\<close> serialises, nested lists, dictionaries and byte strings
  among them, with or without compression.
\<close>

theorem round_trip_both_backends:
  "(\<not> lock (backend wm) \<longrightarrow> round_trip MemoryCache key v wm)
   \<and> (disk_ready L key (backend wd) \<and> picklable v \<longrightarrow> round_trip (DiskCache L) key v wd)"
  using mem_round_trip [of wm key v] disk_round_trip [of L key wd v] by blast

theorem round_trip_both_backends_witness:
  "\<not> lock (backend mem_empty)
   \<and> disk_ready example_lib ''k'' (backend disk_empty)
   \<and> picklable (PList [PInt 1, PBytes [1, 2, 255], PDict [(''a'', PList [PNone])]])
   \<and> round_trip MemoryCache ''k'' (PList [PInt 1, PBytes [1, 2, 255], PDict [(''a'', PList [PNone])]]) mem_empty
   \<and> round_trip (DiskCache example_lib) ''k'' (PList [PInt 1, PBytes [1, 2, 255], PDict [(''a'', PList [PNone])]]) disk_empty"
proof -
  have h1: "\<not> lock (backend mem_empty)" by (simp add: mem_empty_def)
  have h2: "disk_ready example_lib ''k'' (backend disk_empty)"
    by (simp add: disk_ready_def disk_empty_def lock_held_def)
  have h3: "picklable (PList [PInt 1, PBytes [1, 2, 255], PDict [(''a'', PList [PNone])]])"
    by (simp add: picklable_def)
  from round_trip_both_backends
    [of mem_empty "''k''" "PList [PInt 1, PBytes [1, 2, 255], PDict [(''a'', PList [PNone])]]"
        example_lib disk_empty] h1 h2 h3
  show ?thesis by blast
qed

section \<open>C3: a hit returns the stored value without calling the function\<close>

text \<open>
  Claim C3. When the lookup of the cache manager returns a stored value (one that is not
  \<open>None\<close>), \<open>_get_cached_value\<close> returns \<open>(True, value)\<close> and the decorated call returns the
  value, and the world afterwards is exactly the world the lookup left: the body of the
  wrapped function has not run, so its call counter is what it was.
\<close>

theorem cache_hit_short_circuit:
  assumes "manager_get B st (build_cache_key L st f args kwargs kb kp ex)
             (f_module f @ ''.'' @ f_qualname f) w = (Return v, w1)"
    and "v \<noteq> PNone"
  shows "get_cached_value L st B f args kwargs ttl kb kp ex w = (Return (True, v), w1)
       \<and> wrapped_func L st B f args kwargs ttl kb kp ex w = (Return v, w1)"
  using assms by (simp add: get_cached_value_def wrapped_func_def Let_def)

theorem cache_hit_short_circuit_witness:
  "fst (manager_get MemoryCache example_settings square_key
          (f_module square @ ''.'' @ f_qualname square) mem_squared) = Return (PInt 25)
   \<and> PInt 25 \<noteq> PNone
   \<and> fst (wrapped_func example_lib example_settings MemoryCache square [PInt 5] [] None None None None
            mem_squared) = Return (PInt 25)
   \<and> user (snd (wrapped_func example_lib example_settings MemoryCache square [PInt 5] [] None None None None
            mem_squared)) = user mem_squared"
proof -
  let ?r = "manager_get MemoryCache example_settings square_key
          (f_module square @ ''.'' @ f_qualname square) mem_squared"
  have g: "fst ?r = Return (PInt 25)" and u: "user (snd ?r) = user mem_squared"
    by (simp_all add: manager_get_def MemoryCache_def mem_get_def mem_squared_def mem_lock_def
        time_time_def mem_touch_def mem_store_def emit_def Let_def)
  have h: "manager_get MemoryCache example_settings
             (build_cache_key example_lib example_settings square [PInt 5] [] None None None)
             (f_module square @ ''.'' @ f_qualname square) mem_squared = (Return (PInt 25), snd ?r)"
    using g by (simp add: square_key_def [symmetric] prod_eq_iff)
  have n: "PInt 25 \<noteq> PNone" by simp
  from cache_hit_short_circuit [OF h n, of None] g u n
  show ?thesis by simp
qed

section \<open>C4: a failing computation\<close>



section \<open>C5: the error notification of a failing lookup\<close>

text \<open>
  Claim C5 says that every error notification of the cache manager carries the kind of the
  error and the name of the operation. For a disk cache whose shard directory cannot be
  made, \<open>get\<close>, \<open>set\<close> and \<open>delete\<close> of the backend raise \<open>OSError\<close>; the manager returns
  normally from each, and the notifications of \<open>set\<close> and \<open>delete\<close> carry
  \<open>operation\<close>, while the notification of \<open>get\<close> has no \<open>operation\<close> key at all.
\<close>

theorem manager_get_error_lacks_operation:
  "fst (disk_get example_lib ''k'' disk_mkdir_fails) = Raise (Exn OSError ''mkdir'')
   \<and> fst (manager_get (DiskCache example_lib) disk_settings ''k'' ''m.f'' disk_mkdir_fails) = Return PNone
   \<and> emitted (snd (manager_get (DiskCache example_lib) disk_settings ''k'' ''m.f'' disk_mkdir_fails))
       = [(CACHE_ERROR, [(''key'', PStr ''k''), (''function'', PStr ''m.f''), (''backend'', PStr ''disk''),
                         (''error'', PStr ''mkdir''), (''error_type'', PStr ''OSError'')])]
   \<and> map_of (snd (last (emitted (snd (manager_get (DiskCache example_lib) disk_settings ''k'' ''m.f''
                                        disk_mkdir_fails))))) ''operation'' = None
   \<and> map_of (snd (last (emitted (snd (manager_set (DiskCache example_lib) disk_settings ''k'' (PInt 1) ''m.f''
                                        None disk_mkdir_fails))))) ''operation'' = Some (PStr ''set'')
   \<and> map_of (snd (last (emitted (snd (manager_delete (DiskCache example_lib) disk_settings ''k''
                                        disk_mkdir_fails))))) ''operation'' = Some (PStr ''delete'')"
  by (simp add: manager_get_def manager_set_def manager_delete_def DiskCache_def disk_get_def
      disk_set_def write_entry_def disk_delete_def key_to_path_def subdir_of_def disk_mkdir_fails_def
      example_lib_def disk_settings_def emit_def)

section \<open>C6: least-recently-used eviction\<close>

text \<open>
  Claim C6. In a memory cache made with a positive \<open>max_size = n\<close>, whose lock is free and
  whose keys are distinct (as those of a dictionary are): a \<open>set\<close> of a key that is not
  present, when the cache holds \<open>n\<close> entries, removes exactly one entry \<open>old\<close>, whose last
  access time is minimal among all stored entries, and appends the new entry; a \<open>set\<close> of a
  key that is present leaves the keys as they are and every other entry in place.
\<close>

theorem mem_set_lru_eviction:
  assumes "max_size (backend w) = Some n" and "0 < n"
    and "\<not> lock (backend w)"
    and "distinct (map fst (cache (backend w)))"
  shows "(\<not> dict_contains key (cache (backend w)) \<and> int (length (cache (backend w))) = n \<longrightarrow>
           (\<exists>old entry. old \<in> set (cache (backend w))
              \<and> (\<forall>e\<in>set (cache (backend w)). last_access old \<le> last_access e)
              \<and> fst entry = v
              \<and> cache (backend (snd (mem_set key v ttl w)))
                   = remove1 old (cache (backend w)) @ [(key, entry)]))
       \<and> (dict_contains key (cache (backend w)) \<longrightarrow>
             map fst (cache (backend (snd (mem_set key v ttl w)))) = map fst (cache (backend w))
           \<and> (\<forall>e\<in>set (cache (backend w)).
                 fst e \<noteq> key \<longrightarrow> e \<in> set (cache (backend (snd (mem_set key v ttl w))))))"
proof -
  let ?c = "cache (backend w)"
  let ?c' = "cache (backend (snd (mem_set key v ttl w)))"
  from mem_set_cache [OF assms(3), of key v ttl] obtain expiry t where
    c': "?c' = AList.update key (v, expiry, t)
             (if truthy_int (max_size (backend w))
                 \<and> int (length ?c) \<ge> the (max_size (backend w))
                 \<and> \<not> dict_contains key ?c
              then cache (evict_lru ((backend w)\<lparr>lock := True\<rparr>))
              else ?c)"
    by blast
  have new: "\<exists>old entry. old \<in> set ?c \<and> (\<forall>e\<in>set ?c. last_access old \<le> last_access e)
              \<and> fst entry = v \<and> ?c' = remove1 old ?c @ [(key, entry)]"
    if absent: "\<not> dict_contains key ?c" and full: "int (length ?c) = n"
  proof -
    from full assms(2) have ne: "cache ((backend w)\<lparr>lock := True\<rparr>) \<noteq> []" by auto
    from evict_lru_nonempty [OF ne] obtain old where
      old: "old \<in> set ?c" "\<forall>e\<in>set ?c. last_access old \<le> last_access e"
        "evict_lru ((backend w)\<lparr>lock := True\<rparr>) =
           (backend w)\<lparr>lock := True, cache := AList.delete (fst old) ?c\<rparr>"
      by auto
    from old(1) have "(fst old, snd old) \<in> set ?c" by simp
    with assms(4) have del: "AList.delete (fst old) ?c = remove1 old ?c"
      using delete_is_remove1 [of ?c "fst old" "snd old"] by simp
    from absent have "key \<notin> fst ` set (remove1 old ?c)"
      using set_remove1_subset [of old ?c] by (auto simp: dict_contains_def)
    then have "AList.update key (v, expiry, t) (remove1 old ?c)
        = remove1 old ?c @ [(key, (v, expiry, t))]"
      by (rule update_absent)
    with c' absent full assms(1,2) old(3) del
    have "?c' = remove1 old ?c @ [(key, (v, expiry, t))]" by simp
    with old(1,2) show ?thesis by (intro exI [of _ old] exI [of _ "(v, expiry, t)"]) simp
  qed
  have present: "map fst ?c' = map fst ?c \<and> (\<forall>e\<in>set ?c. fst e \<noteq> key \<longrightarrow> e \<in> set ?c')"
    if here: "dict_contains key ?c"
  proof -
    from here c' have eq: "?c' = AList.update key (v, expiry, t) ?c" by simp
    from here have "key \<in> fst ` set ?c" by (simp add: dict_contains_def)
    then have "map fst (AList.update key (v, expiry, t) ?c) = map fst ?c"
      by (rule map_fst_update_present)
    moreover have "e \<in> set (AList.update key (v, expiry, t) ?c)"
      if "e \<in> set ?c" "fst e \<noteq> key" for e
      using that by (rule update_keeps_others)
    ultimately show ?thesis using eq by simp
  qed
  from new present show ?thesis by blast
qed

theorem mem_set_lru_eviction_witness:
  "max_size (backend mem_full) = Some 2 \<and> 0 < (2::int) \<and> \<not> lock (backend mem_full)
   \<and> distinct (map fst (cache (backend mem_full)))
   \<and> \<not> dict_contains ''c'' (cache (backend mem_full))
   \<and> int (length (cache (backend mem_full))) = 2
   \<and> dict_contains ''a'' (cache (backend mem_full))
   \<and> (\<exists>old entry. old \<in> set (cache (backend mem_full))
          \<and> (\<forall>e\<in>set (cache (backend mem_full)). last_access old \<le> last_access e)
          \<and> fst entry = PInt 3
          \<and> cache (backend (snd (mem_set ''c'' (PInt 3) None mem_full)))
               = remove1 old (cache (backend mem_full)) @ [(''c'', entry)])
   \<and> map fst (cache (backend (snd (mem_set ''a'' (PInt 7) None mem_full))))
       = map fst (cache (backend mem_full))"
proof -
  have h1: "max_size (backend mem_full) = Some 2" by (simp add: mem_full_def)
  have h2: "0 < (2::int)" by simp
  have h3: "\<not> lock (backend mem_full)" by (simp add: mem_full_def)
  have h4: "distinct (map fst (cache (backend mem_full)))" by (simp add: mem_full_def)
  have h5: "\<not> dict_contains ''c'' (cache (backend mem_full))
      \<and> int (length (cache (backend mem_full))) = 2"
    by (simp add: mem_full_def dict_contains_def)
  have h6: "dict_contains ''a'' (cache (backend mem_full))"
    by (simp add: mem_full_def dict_contains_def)
  from mem_set_lru_eviction [OF h1 h2 h3 h4, of "''c''" "PInt 3" None] h5
  have a: "\<exists>old entry. old \<in> set (cache (backend mem_full))
          \<and> (\<forall>e\<in>set (cache (backend mem_full)). last_access old \<le> last_access e)
          \<and> fst entry = PInt 3
          \<and> cache (backend (snd (mem_set ''c'' (PInt 3) None mem_full)))
               = remove1 old (cache (backend mem_full)) @ [(''c'', entry)]"
    by blast
  from mem_set_lru_eviction [OF h1 h2 h3 h4, of "''a''" "PInt 7" None] h6
  have b: "map fst (cache (backend (snd (mem_set ''a'' (PInt 7) None mem_full))))
       = map fst (cache (backend mem_full))"
    by blast
  from h1 h2 h3 h4 h5 h6 a b show ?thesis by blast
qed

section \<open>C7: excluded parameters do not reach the key\<close>



section \<open>C8: the capacity bound is an invariant\<close>

text \<open>
  Claim C8. For a memory cache made with a positive \<open>max_size = n\<close>: if the cache holds at
  most \<open>n\<close> entries, it holds at most \<open>n\<close> entries after \<open>get\<close>, after \<open>set\<close>, after
  \<open>delete\<close> and after \<open>clear\<close>, and \<open>max_size\<close> is still \<open>n\<close>.
\<close>

theorem memory_cache_bounded:
  assumes "0 < n" and "within_capacity n w"
  shows "within_capacity n (snd (mem_get key w))
       \<and> within_capacity n (snd (mem_set key v ttl w))
       \<and> within_capacity n (snd (mem_delete key w))
       \<and> within_capacity n (snd (mem_clear w))"
proof -
  from assms have ms: "max_size (backend w) = Some n"
    and len: "int (length (cache (backend w))) \<le> n"
    by (simp_all add: within_capacity_def)
  have "within_capacity n (snd (mem_get key w))"
    using ms len by (simp add: within_capacity_def mem_get_length mem_get_max_size)
  moreover have "within_capacity n (snd (mem_set key v ttl w))"
    using ms mem_set_length [OF ms assms(1) len]
    by (simp add: within_capacity_def mem_set_max_size)
  moreover have "within_capacity n (snd (mem_delete key w))"
    using ms len mem_delete_length [of key w]
    by (simp add: within_capacity_def mem_delete_max_size)
  moreover have "within_capacity n (snd (mem_clear w))"
    using ms len mem_clear_length [of w]
    by (simp add: within_capacity_def mem_clear_max_size)
  ultimately show ?thesis by blast
qed

theorem memory_cache_bounded_witness:
  "0 < (2::int) \<and> within_capacity 2 mem_full
   \<and> within_capacity 2 (snd (mem_get ''c'' mem_full))
   \<and> within_capacity 2 (snd (mem_set ''c'' (PInt 3) None mem_full))
   \<and> within_capacity 2 (snd (mem_delete ''c'' mem_full))
   \<and> within_capacity 2 (snd (mem_clear mem_full))"
proof -
  have p: "0 < (2::int)" by simp
  have h: "within_capacity 2 mem_full" by (simp add: within_capacity_def mem_full_def)
  from memory_cache_bounded [OF p h, of "''c''" "PInt 3" None]
  have "within_capacity 2 (snd (mem_get ''c'' mem_full))
   \<and> within_capacity 2 (snd (mem_set ''c'' (PInt 3) None mem_full))
   \<and> within_capacity 2 (snd (mem_delete ''c'' mem_full))
   \<and> within_capacity 2 (snd (mem_clear mem_full))" .
  with p h show ?thesis by blast
qed

section \<open>C9: a failure while the disk cache writes an entry\<close>




section \<open>C10: a stored \<open>None\<close> is a miss\<close>

text \<open>
  Claim C10. After the cache manager has stored \<open>None\<close> under a key in the memory cache,
  and while that entry has not expired, the lookup of the key returns \<open>None\<close> and emits a
  miss notification; so \<open>_get_cached_value\<close> for a function with that key does not report
  a cached value: it runs the body of the function again (the user state becomes the one
  the body leaves) and returns \<open>(False, result)\<close>.
\<close>

theorem stored_none_is_a_miss:
  assumes "manager_set MemoryCache st key PNone fn ttl w = (Return (), w1)"
    and "entry_live key w1"
    and "key = build_cache_key L st f args kwargs kb kp ex"
    and "fn = f_module f @ ''.'' @ f_qualname f"
    and "body f args kwargs (user w1) = (Return r, u)"
  shows "fst (manager_get MemoryCache st key fn w1) = Return PNone
       \<and> emitted (snd (manager_get MemoryCache st key fn w1))
           = emitted w1 @ [(CACHE_MISS, [(''key'', PStr key), (''function'', PStr fn),
                                        (''backend'', PStr (s_backend st))])]
       \<and> fst (get_cached_value L st MemoryCache f args kwargs ttl2 kb kp ex w1) = Return (False, r)
       \<and> user (snd (get_cached_value L st MemoryCache f args kwargs ttl2 kb kp ex w1)) = u"
proof -
  from manager_set_mem_Return [OF assms(1)] obtain ex' t where
    nl: "\<not> lock (backend w1)" and st: "map_of (cache (backend w1)) key = Some (PNone, ex', t)"
    by blast
  from mem_get_stored_live [OF nl st assms(2)]
  have g: "fst (mem_get key w1) = Return PNone" "emitted (snd (mem_get key w1)) = emitted w1"
    "user (snd (mem_get key w1)) = user w1" "\<not> lock (backend (snd (mem_get key w1)))"
    by simp_all
  from g(1) obtain w2 where w2: "mem_get key w1 = (Return PNone, w2)"
    by (cases "mem_get key w1") auto
  with g have w2f: "emitted w2 = emitted w1" "user w2 = user w1" "\<not> lock (backend w2)"
    by simp_all
  have mg: "manager_get MemoryCache st key fn w1 =
      (Return PNone, emit CACHE_MISS [(''key'', PStr key), (''function'', PStr fn),
                                       (''backend'', PStr (s_backend st))] w2)"
    using w2 by (simp add: manager_get_def MemoryCache_def)
  have part1: "fst (manager_get MemoryCache st key fn w1) = Return PNone
       \<and> emitted (snd (manager_get MemoryCache st key fn w1))
           = emitted w1 @ [(CACHE_MISS, [(''key'', PStr key), (''function'', PStr fn),
                                        (''backend'', PStr (s_backend st))])]"
    using mg w2f by (simp add: emit_def)
  have part2: "fst (get_cached_value L st MemoryCache f args kwargs ttl2 kb kp ex w1) = Return (False, r)
       \<and> user (snd (get_cached_value L st MemoryCache f args kwargs ttl2 kb kp ex w1)) = u"
    using mg w2f assms(5)
    unfolding get_cached_value_def assms(3) [symmetric] assms(4) [symmetric]
    by (simp add: Let_def emit_def time_time_def manager_set_mem_free mem_set_free)
  from part1 part2 show ?thesis by blast
qed

theorem stored_none_is_a_miss_witness:
  "manager_set MemoryCache example_settings none_key PNone ''__main__.notify'' None mem_empty
     = (Return (), mem_after_none)
   \<and> entry_live none_key mem_after_none
   \<and> body returns_none [PInt 1] [] (user mem_after_none) = (Return PNone, 1)
   \<and> fst (manager_get MemoryCache example_settings none_key ''__main__.notify'' mem_after_none)
       = Return PNone
   \<and> map fst (emitted (snd (manager_get MemoryCache example_settings none_key ''__main__.notify''
                               mem_after_none))) = [CACHE_SET, CACHE_MISS]
   \<and> fst (get_cached_value example_lib example_settings MemoryCache returns_none [PInt 1] []
            None None None None mem_after_none) = Return (False, PNone)
   \<and> user (snd (get_cached_value example_lib example_settings MemoryCache returns_none [PInt 1] []
            None None None None mem_after_none)) = 1"
proof -
  have h1: "manager_set MemoryCache example_settings none_key PNone ''__main__.notify'' None mem_empty
     = (Return (), mem_after_none)"
    by (simp add: mem_after_none_def manager_set_def MemoryCache_def mem_set_def mem_empty_def
        Let_def split_beta)
  have h2: "entry_live none_key mem_after_none"
    by (simp add: entry_live_def mem_after_none_def manager_set_def MemoryCache_def mem_set_def
        mem_empty_def example_settings_def ttl_or_def Let_def mem_lock_def mem_store_def
        time_time_def emit_def dict_contains_def)
  have h3: "none_key = build_cache_key example_lib example_settings returns_none [PInt 1] []
      None None None"
    by (simp add: none_key_def)
  have h4: "''__main__.notify'' = f_module returns_none @ ''.'' @ f_qualname returns_none"
    by (simp add: returns_none_def)
  have u: "user mem_after_none = 0"
    by (simp add: mem_after_none_def manager_set_def MemoryCache_def mem_set_def
        mem_empty_def example_settings_def ttl_or_def Let_def mem_lock_def mem_store_def
        time_time_def emit_def dict_contains_def)
  have ev: "map fst (emitted mem_after_none) = [CACHE_SET]"
    by (simp add: mem_after_none_def manager_set_def MemoryCache_def mem_set_def
        mem_empty_def example_settings_def ttl_or_def Let_def mem_lock_def mem_store_def
        time_time_def emit_def dict_contains_def)
  have h5: "body returns_none [PInt 1] [] (user mem_after_none) = (Return PNone, 1)"
    using u by (simp add: returns_none_def)
  from stored_none_is_a_miss [OF h1 h2 h3 h4 h5, of None] h1 h2 h5 ev
  show ?thesis by simp
qed

end
